theory Spec2Isabelle
  imports Main
begin

section \<open>JavaScript values, objects and errors\<close>

text \<open>
  The values that travel through the record-store client and the conflict resolver:
  primitives only, since none of the modelled functions looks inside a nested value.
  An object is the list of its own enumerable entries in the order they were added,
  which is the order \<open>Object.entries\<close> reports them in (but for keys that are
  written like array indices, which JavaScript lists first; nothing below depends on
  where an entry stands). A well-formed object has no key twice.
\<close>

datatype jsval = JUndefined | JNull | JBool bool | JNum int | JStr string

type_synonym 'v jsobject = "(string \<times> 'v) list"

definition own_keys :: "'v jsobject \<Rightarrow> string list" where
  "own_keys obj = map fst obj"

definition well_formed :: "'v jsobject \<Rightarrow> bool" where
  "well_formed obj = distinct (own_keys obj)"

text \<open>
  The members every plain object inherits from \<open>Object.prototype\<close>. The operator
  \<open>key in obj\<close> answers true for them as well as for the object's own keys.
\<close>

definition object_prototype_keys :: "string list" where
  "object_prototype_keys =
     [''constructor'', ''hasOwnProperty'', ''isPrototypeOf'', ''propertyIsEnumerable'',
      ''toLocaleString'', ''toString'', ''valueOf'',
      ''__defineGetter__'', ''__defineSetter__'', ''__lookupGetter__'', ''__lookupSetter__'',
      ''__proto__'']"

definition in_op :: "string \<Rightarrow> 'v jsobject \<Rightarrow> bool" where
  "in_op key obj = (key \<in> set (own_keys obj) \<or> key \<in> set object_prototype_keys)"

definition startsWith :: "string \<Rightarrow> string \<Rightarrow> bool" where
  "startsWith s p = (take (length p) s = p)"

text \<open>\<open>{ ...obj }\<close>: a fresh object with the same own entries.\<close>

definition spread :: "'v jsobject \<Rightarrow> 'v jsobject" where
  "spread obj = obj"

text \<open>\<open>obj[key] = value\<close>: overwrite the entry in place, or add it at the end.\<close>

fun obj_set :: "'v jsobject \<Rightarrow> string \<Rightarrow> 'v \<Rightarrow> 'v jsobject" where
  "obj_set [] key value = [(key, value)]"
| "obj_set ((k, v) # rest) key value =
     (if k = key then (key, value) # rest else (k, v) # obj_set rest key value)"

definition obj_get :: "'v jsobject \<Rightarrow> string \<Rightarrow> 'v option" where
  "obj_get obj key = map_of obj key"

text \<open>\<open>obj.key\<close>: the own entry, or \<open>undefined\<close>.\<close>

definition get_prop :: "jsval jsobject \<Rightarrow> string \<Rightarrow> jsval" where
  "get_prop obj key = (case obj_get obj key of Some v \<Rightarrow> v | None \<Rightarrow> JUndefined)"

text \<open>A value that may be an object: what a variable holds that the code reads
  properties from, one level deep.\<close>

datatype jsdata = Val jsval | Obj "jsval jsobject"

text \<open>An \<open>Error\<close> object: its \<open>name\<close>, its \<open>message\<close> and the \<open>status\<close> of
  \<open>HTTPError\<close> and \<open>APIError\<close> (0 where the error has none).\<close>

record js_error =
  err_name :: string
  err_message :: string
  err_status :: nat

definition Error :: "string \<Rightarrow> js_error" where
  "Error msg = \<lparr>err_name = ''Error'', err_message = msg, err_status = 0\<rparr>"

definition TypeError :: "string \<Rightarrow> js_error" where
  "TypeError msg = \<lparr>err_name = ''TypeError'', err_message = msg, err_status = 0\<rparr>"

section \<open>ConflictResolver\<close>

record 'v resolution =
  resolved :: "'v jsobject"
  source :: string

text \<open>
  A promise in one of its three states, and what \<open>resolve\<close> hands to its caller: the
  resolution a resolver returned, the promise an \<open>async\<close> resolver returned, or, when
  the strategy named a member of \<open>Object.prototype\<close> instead of a resolver, the object
  or the text that member returned.
\<close>

datatype 'a promise = Pending | Fulfilled 'a | Rejected js_error

datatype 'v returned =
    Plain "'v resolution"
  | Promise "'v resolution promise"
  | Object "'v jsobject"
  | Text string

definition clientWins :: "'v jsobject \<Rightarrow> 'v jsobject \<Rightarrow> 'v resolution" where
  "clientWins local remote = \<lparr>resolved = local, source = ''client''\<rparr>"

definition serverWins :: "'v jsobject \<Rightarrow> 'v jsobject \<Rightarrow> 'v resolution" where
  "serverWins local remote = \<lparr>resolved = remote, source = ''server''\<rparr>"

text \<open>The \<open>for\<close> loop of \<open>merge\<close> over \<open>Object.entries(local)\<close>.\<close>

fun merge_loop :: "'v jsobject \<Rightarrow> 'v jsobject \<Rightarrow> 'v jsobject \<Rightarrow> 'v jsobject" where
  "merge_loop [] remote res = res"
| "merge_loop ((key, value) # entries) remote res =
     merge_loop entries remote
       (if \<not> in_op key remote \<and> \<not> startsWith key ''_'' then obj_set res key value else res)"

definition merge :: "'v jsobject \<Rightarrow> 'v jsobject \<Rightarrow> 'v resolution" where
  "merge local remote =
     \<lparr>resolved = merge_loop local remote (spread remote), source = ''merged''\<rparr>"

text \<open>\<open>prompt\<close> is \<open>async\<close>: it returns a promise, already fulfilled with what
  \<open>merge\<close> returns.\<close>

definition prompt :: "'v jsobject \<Rightarrow> 'v jsobject \<Rightarrow> 'v resolution promise" where
  "prompt local remote = Fulfilled (merge local remote)"

text \<open>
  \<open>resolve\<close> looks the strategy up in the table of the four resolvers and calls what
  it finds, with no receiver. A name that is not in the table but is a member of
  \<open>Object.prototype\<close> finds that member instead: \<open>constructor\<close> is \<open>Object\<close>, which
  returns its first argument; \<open>toString\<close> answers for the missing receiver;
  \<open>__proto__\<close> is an object, not a function; and the other members need a receiver, so
  they raise a \<open>TypeError\<close> (its wording is the engine's, and nothing here reads it).
  Any other name raises the error of \<open>resolve\<close> itself.
\<close>

definition resolve ::
  "'v jsobject \<Rightarrow> 'v jsobject \<Rightarrow> string \<Rightarrow> js_error + 'v returned" where
  "resolve local remote strategy =
     (if strategy = ''client-wins'' then Inr (Plain (clientWins local remote))
      else if strategy = ''server-wins'' then Inr (Plain (serverWins local remote))
      else if strategy = ''merge'' then Inr (Plain (merge local remote))
      else if strategy = ''prompt'' then Inr (Promise (prompt local remote))
      else if strategy = ''constructor'' then Inr (Object local)
      else if strategy = ''toString'' then Inr (Text ''[object Undefined]'')
      else if strategy = ''__proto__'' then Inl (TypeError ''resolverFn is not a function'')
      else if strategy \<in> set object_prototype_keys then
        Inl (TypeError ''Cannot convert undefined or null to object'')
      else Inl (Error (''Unknown conflict resolution strategy: '' @ strategy)))"

text \<open>
  The callers of \<open>resolve\<close> read \<open>resolution.resolved\<close> and \<open>resolution.source\<close> from
  what it returned, at once. A resolution has both; a promise has neither, whatever it
  is fulfilled with; an object has them if they are among its entries; a text has
  neither.
\<close>

fun read_resolved :: "jsval returned \<Rightarrow> jsdata" where
  "read_resolved (Plain resolution) = Obj (resolved resolution)"
| "read_resolved (Promise p) = Val JUndefined"
| "read_resolved (Object obj) = Val (get_prop obj ''resolved'')"
| "read_resolved (Text str) = Val JUndefined"

fun read_source :: "jsval returned \<Rightarrow> jsval" where
  "read_source (Plain resolution) = JStr (source resolution)"
| "read_source (Promise p) = JUndefined"
| "read_source (Object obj) = get_prop obj ''source''"
| "read_source (Text str) = JUndefined"

text \<open>
  \<open>mergeData\<close> of the record-store client, one of the two callers: it merges the
  local and the remote list of items by their \<open>id\<close>. A remote item with no local
  partner is downloaded; one whose \<open>_version\<close> differs from its partner's is a
  conflict, resolved with the given strategy; local items with no remote partner are
  appended. The partner is looked up in a \<open>Map\<close>, which keeps the last item of an
  \<open>id\<close>. An error of \<open>resolve\<close> ends the merge. \<open>mergeData\<close> is \<open>async\<close> and awaits
  nothing: the value here is what its promise is fulfilled with, an error what it is
  rejected with.
\<close>

record merge_result =
  merged :: "jsdata list"
  downloaded :: nat
  conflicts :: "(string \<times> jsval) list list"

definition map_by_id :: "jsval jsobject list \<Rightarrow> jsval \<Rightarrow> jsval jsobject option" where
  "map_by_id items = map_of (rev (map (\<lambda>item. (get_prop item ''id'', item)) items))"

fun mergeData_remote ::
  "jsval jsobject list \<Rightarrow> jsval jsobject list \<Rightarrow> string \<Rightarrow> merge_result
   \<Rightarrow> js_error + merge_result" where
  "mergeData_remote localData [] strategy acc = Inr acc"
| "mergeData_remote localData (remoteItem # rest) strategy acc =
     (case map_by_id localData (get_prop remoteItem ''id'') of
        None \<Rightarrow>
          mergeData_remote localData rest strategy
            (acc\<lparr>merged := merged acc @ [Obj remoteItem], downloaded := downloaded acc + 1\<rparr>)
      | Some localItem \<Rightarrow>
          (if get_prop localItem ''_version'' \<noteq> get_prop remoteItem ''_version'' then
             (case resolve localItem remoteItem strategy of
                Inl error \<Rightarrow> Inl error
              | Inr resolution \<Rightarrow>
                  mergeData_remote localData rest strategy
                    (acc\<lparr>merged := merged acc @ [read_resolved resolution],
                         conflicts := conflicts acc @
                           [[(''id'', get_prop remoteItem ''id''),
                             (''strategy'', read_source resolution)]]\<rparr>))
           else
             mergeData_remote localData rest strategy
               (acc\<lparr>merged := merged acc @ [Obj remoteItem]\<rparr>)))"

record merge_summary =
  summary_merged :: "jsdata list"
  summary_downloaded :: nat
  summary_conflicts :: nat

definition mergeData ::
  "jsval jsobject list \<Rightarrow> jsval jsobject list \<Rightarrow> string \<Rightarrow> js_error + merge_summary" where
  "mergeData localData remoteData strategy =
     (case mergeData_remote localData remoteData strategy
             \<lparr>merged = [], downloaded = 0, conflicts = []\<rparr> of
        Inl error \<Rightarrow> Inl error
      | Inr acc \<Rightarrow>
          Inr \<lparr>summary_merged =
                 merged acc @
                 map Obj (filter (\<lambda>localItem.
                            map_by_id remoteData (get_prop localItem ''id'') = None) localData),
               summary_downloaded = downloaded acc,
               summary_conflicts = length (conflicts acc)\<rparr>)"

section \<open>Document names on the collaboration server\<close>

text \<open>
  The server checks every document name against the regular expression
  \<open>^[a-zA-Z_][a-zA-Z0-9_]*:[a-zA-Z0-9_-]+$\<close>. The expression is kept as a value and
  matched by derivatives, so the model reads like the pattern. Without the \<open>m\<close> flag,
  \<open>^\<close> and \<open>$\<close> are the two ends of the input.
\<close>

datatype regex =
    Never
  | Epsilon
  | OneOf "char list"
  | Seq regex regex
  | Alt regex regex
  | Star regex

definition Plus :: "regex \<Rightarrow> regex" where
  "Plus r = Seq r (Star r)"

fun nullable :: "regex \<Rightarrow> bool" where
  "nullable Never = False"
| "nullable Epsilon = True"
| "nullable (OneOf cs) = False"
| "nullable (Seq r1 r2) = (nullable r1 \<and> nullable r2)"
| "nullable (Alt r1 r2) = (nullable r1 \<or> nullable r2)"
| "nullable (Star r) = True"

fun deriv :: "char \<Rightarrow> regex \<Rightarrow> regex" where
  "deriv c Never = Never"
| "deriv c Epsilon = Never"
| "deriv c (OneOf cs) = (if c \<in> set cs then Epsilon else Never)"
| "deriv c (Seq r1 r2) =
     (if nullable r1 then Alt (Seq (deriv c r1) r2) (deriv c r2) else Seq (deriv c r1) r2)"
| "deriv c (Alt r1 r2) = Alt (deriv c r1) (deriv c r2)"
| "deriv c (Star r) = Seq (deriv c r) (Star r)"

fun regex_test :: "regex \<Rightarrow> string \<Rightarrow> bool" where
  "regex_test r [] = nullable r"
| "regex_test r (c # cs) = regex_test (deriv c r) cs"

definition lower_case :: "char list" where
  "lower_case = ''abcdefghijklmnopqrstuvwxyz''"

definition upper_case :: "char list" where
  "upper_case = ''ABCDEFGHIJKLMNOPQRSTUVWXYZ''"

definition digits :: "char list" where
  "digits = ''0123456789''"

text \<open>The three character classes of the pattern: \<open>[a-zA-Z_]\<close>,
  \<open>[a-zA-Z0-9_]\<close> and \<open>[a-zA-Z0-9_-]\<close>.\<close>

definition name_start :: "char list" where
  "name_start = lower_case @ upper_case @ ''_''"

definition name_char :: "char list" where
  "name_char = lower_case @ upper_case @ digits @ ''_''"

definition id_char :: "char list" where
  "id_char = lower_case @ upper_case @ digits @ ''_-''"

definition pattern :: regex where
  "pattern =
     Seq (OneOf name_start)
       (Seq (Star (OneOf name_char))
         (Seq (OneOf '':'') (Plus (OneOf id_char))))"

text \<open>
  What a regular expression matches, as a set of strings: the yardstick the matcher
  is measured against below. \<open>star L\<close> is the set of all concatenations of strings
  of \<open>L\<close>.
\<close>

inductive_set star :: "string set \<Rightarrow> string set" for L :: "string set" where
  star_empty: "[] \<in> star L"
| star_step: "u \<in> L \<Longrightarrow> v \<in> star L \<Longrightarrow> u @ v \<in> star L"

fun lang :: "regex \<Rightarrow> string set" where
  "lang Never = {}"
| "lang Epsilon = {[]}"
| "lang (OneOf cs) = {[c] | c. c \<in> set cs}"
| "lang (Seq r1 r2) = {u @ v | u v. u \<in> lang r1 \<and> v \<in> lang r2}"
| "lang (Alt r1 r2) = lang r1 \<union> lang r2"
| "lang (Star r) = star (lang r)"

text \<open>A string that starts like an entity type: one character of the first class and
  then characters of the second.\<close>

definition fits :: "string \<Rightarrow> bool" where
  "fits ty = (case ty of [] \<Rightarrow> False | a # bs \<Rightarrow> a \<in> set name_start \<and> list_all (\<lambda>b. b \<in> set name_char) bs)"

text \<open>\<open>str.split(sep)\<close> for a one-character separator: every piece between two
  separators, the empty ones too. There is always a first piece; the result is that
  piece and the list of the pieces after it.\<close>

fun split :: "char \<Rightarrow> string \<Rightarrow> string \<times> string list" where
  "split sep [] = ([], [])"
| "split sep (c # cs) =
     (if c = sep then ([], fst (split sep cs) # snd (split sep cs))
      else (c # fst (split sep cs), snd (split sep cs)))"

text \<open>\<open>arr.join(', ')\<close>.\<close>

fun join :: "string \<Rightarrow> string list \<Rightarrow> string" where
  "join sep [] = []"
| "join sep [x] = x"
| "join sep (x # y # ys) = x @ sep @ join sep (y # ys)"

definition allowedEntityTypes :: "string list" where
  "allowedEntityTypes = [''deal'', ''contact'', ''company'', ''note'', ''task'', ''email'']"

text \<open>What \<open>validateDocumentName\<close> returns. \<open>entityId\<close> is \<open>None\<close> when it is
  \<open>undefined\<close>.\<close>

record validated_name =
  entityType :: string
  entityId :: "string option"
  documentName :: string

text \<open>
  The destructuring \<open>[entityType, entityId] = documentName.split(':')\<close> takes the first
  two pieces, and leaves \<open>entityId\<close> undefined when there is one piece only.
\<close>

definition validateDocumentName :: "string \<Rightarrow> js_error + validated_name" where
  "validateDocumentName name =
     (if \<not> regex_test pattern name then
        Inl (Error (''Invalid document name format: '' @ name @
                    ''. Expected format: entity_type:entity_id''))
      else
        (case split CHR '':'' name of
           (ty, pieces) \<Rightarrow>
             (if ty \<notin> set allowedEntityTypes then
                Inl (Error (''Invalid entity type: '' @ ty @ ''. Allowed types: '' @
                            join '', '' allowedEntityTypes))
              else Inr \<lparr>entityType = ty,
                       entityId = (case pieces of [] \<Rightarrow> None | ident # _ \<Rightarrow> Some ident),
                       documentName = name\<rparr>)))"

section \<open>CRMRealtimeManager: state\<close>

text \<open>
  A JavaScript \<open>Map\<close> is the list of its entries in insertion order: \<open>set\<close>
  overwrites an entry in place or adds it at the end, \<open>delete\<close> removes it.
\<close>

type_synonym ('k, 'v) jsmap = "('k \<times> 'v) list"

definition map_has :: "('k, 'v) jsmap \<Rightarrow> 'k \<Rightarrow> bool" where
  "map_has m k = (k \<in> set (map fst m))"

definition map_get :: "('k, 'v) jsmap \<Rightarrow> 'k \<Rightarrow> 'v option" where
  "map_get m k = map_of m k"

fun map_set :: "('k, 'v) jsmap \<Rightarrow> 'k \<Rightarrow> 'v \<Rightarrow> ('k, 'v) jsmap" where
  "map_set [] key value = [(key, value)]"
| "map_set ((k, v) # rest) key value =
     (if k = key then (key, value) # rest else (k, v) # map_set rest key value)"

definition map_delete :: "('k, 'v) jsmap \<Rightarrow> 'k \<Rightarrow> ('k, 'v) jsmap" where
  "map_delete m k = filter (\<lambda>e. fst e \<noteq> k) m"

record config =
  websocketUrl :: string
  namespace :: string
  reconnectDelay :: int
  maxReconnectAttempts :: int
  awarenessUpdateInterval :: int
  performanceMonitoring :: bool

record current_user =
  user_id :: string
  user_name :: string
  user_email :: string
  user_color :: string
  user_avatar :: "string option"

text \<open>A \<open>Y.Doc\<close> with the four shared types \<open>joinDeal\<close> sets up. Two documents are the
  same object when their \<open>guid\<close> is the same.\<close>

record ydoc =
  guid :: nat
  dealMap :: "jsval jsobject"
  notesText :: string
  activityArray :: "jsval jsobject list"
  metadataMap :: "jsval jsobject"

record provider =
  provider_url :: string
  provider_name :: string
  provider_document :: nat
  provider_token :: string
  provider_dealId :: string
  provider_userId :: string

record persistence_entry =
  persistence_name :: string
  persistence_document :: nat

record awareness_entry =
  awareness_user :: current_user
  awareness_deal :: string
  awareness_joinedAt :: nat

record metrics =
  syncCount :: nat
  syncTotalTime :: nat
  lastSyncTime :: "nat option"
  errorCount :: nat
  connectionCount :: nat

text \<open>A timer waiting in the event loop: the handle \<open>setTimeout\<close> returned, the delay
  it was given and the deal its callback reconnects.\<close>

record timer =
  timer_handle :: nat
  timer_delay :: int
  timer_deal :: string

text \<open>
  The manager. \<open>emitted\<close> is the sequence of \<open>emit\<close> calls (event name and deal);
  the listeners are external. \<open>timers\<close> and \<open>connectCalls\<close> are the manager's
  effects on the event loop and on the providers (\<open>provider.connect()\<close>). The last
  four fields are the environment: the clock, the duration \<open>performance.now()\<close>
  measures, the next timer handle and whether constructing a provider raises.
\<close>

record manager =
  cfg :: config
  documents :: "(string, ydoc) jsmap"
  providers :: "(string, provider) jsmap"
  persistence :: "(string, persistence_entry) jsmap"
  awareness :: "(string, awareness_entry) jsmap"
  emitted :: "(string \<times> string) list"
  isOnline :: bool
  reconnectAttempts :: nat
  reconnectTimeouts :: "(string, nat) jsmap"
  timers :: "timer list"
  connectCalls :: "string list"
  currentUser :: current_user
  authToken :: string
  performanceMetrics :: metrics
  nextGuid :: nat
  now :: nat
  elapsed :: nat
  nextHandle :: nat
  providerFault :: "js_error option"

definition emit :: "string \<Rightarrow> string \<Rightarrow> manager \<Rightarrow> manager" where
  "emit event dealId s = s\<lparr>emitted := emitted s @ [(event, dealId)]\<rparr>"

text \<open>The manager as the constructor leaves it when it is given no option, for a user
  read from \<open>localStorage\<close>.\<close>

definition default_config :: config where
  "default_config =
     \<lparr>websocketUrl = ''ws://localhost:3001'', namespace = ''crm'', reconnectDelay = 1000,
      maxReconnectAttempts = 10, awarenessUpdateInterval = 5000,
      performanceMonitoring = True\<rparr>"

definition new_manager :: "current_user \<Rightarrow> manager" where
  "new_manager user =
     \<lparr>cfg = default_config, documents = [], providers = [], persistence = [], awareness = [],
      emitted = [], isOnline = True, reconnectAttempts = 0, reconnectTimeouts = [],
      timers = [], connectCalls = [], currentUser = user, authToken = [],
      performanceMetrics = \<lparr>syncCount = 0, syncTotalTime = 0, lastSyncTime = None,
                             errorCount = 0, connectionCount = 0\<rparr>,
      nextGuid = 0, now = 0, elapsed = 0, nextHandle = 1, providerFault = None\<rparr>"

definition anonymous :: current_user where
  "anonymous =
     \<lparr>user_id = ''user_k3j9x0q1z'', user_name = ''Anonymous'', user_email = [],
      user_color = ''#4ECDC4'', user_avatar = None\<rparr>"

section \<open>CRMRealtimeManager: joining a session\<close>

record join_options =
  initialData :: "jsval jsobject option"
  initialNotes :: "string option"

text \<open>The name the client gives the session's document. The observers \<open>joinDeal\<close>
  registers on the document and on the awareness are callbacks of the manager's own
  \<open>emit\<close>; registering them changes nothing the manager holds.\<close>

definition docName :: "config \<Rightarrow> string \<Rightarrow> string" where
  "docName c dealId = namespace c @ '':deal:'' @ dealId"

text \<open>\<open>Object.entries(initialData).forEach(([key, value]) => dealMap.set(key, value))\<close>.\<close>

fun set_all :: "jsval jsobject \<Rightarrow> jsval jsobject \<Rightarrow> jsval jsobject" where
  "set_all target [] = target"
| "set_all target ((key, value) # rest) = set_all (obj_set target key value) rest"

definition new_doc :: "manager \<Rightarrow> join_options \<Rightarrow> ydoc" where
  "new_doc s options =
     (let doc = \<lparr>guid = nextGuid s, dealMap = [], notesText = [], activityArray = [],
                     metadataMap = []\<rparr>;
          doc1 = (case initialData options of
                    Some initial \<Rightarrow>
                      doc\<lparr>dealMap := set_all (dealMap doc) initial,
                          metadataMap := obj_set (obj_set (metadataMap doc)
                                        ''createdAt'' (JNum (int (now s))))
                                        ''createdBy'' (JStr (user_id (currentUser s)))\<rparr>
                  | None \<Rightarrow> doc)
      in (case initialNotes options of
            Some initial \<Rightarrow>
              (if initial = [] then doc1 else doc1\<lparr>notesText := initial @ notesText doc1\<rparr>)
          | None \<Rightarrow> doc1))"

definition joinDeal ::
  "string \<Rightarrow> join_options \<Rightarrow> manager \<Rightarrow> (js_error + ydoc) \<times> manager" where
  "joinDeal dealId options s =
     (case map_get (documents s) dealId of
        Some existing \<Rightarrow> (Inr existing, s)
      | None \<Rightarrow>
          (let doc = new_doc s options;
               s1 = s\<lparr>nextGuid := nextGuid s + 1\<rparr>
           in (case providerFault s of
                 Some err \<Rightarrow>
                   (Inl err,
                    emit ''error'' dealId
                      (s1\<lparr>performanceMetrics := (performanceMetrics s1)
                             \<lparr>errorCount := errorCount (performanceMetrics s1) + 1\<rparr>\<rparr>))
               | None \<Rightarrow>
                   (let prov = \<lparr>provider_url = websocketUrl (cfg s),
                                provider_name = docName (cfg s) dealId,
                                provider_document = guid doc,
                                provider_token = authToken s,
                                provider_dealId = dealId,
                                provider_userId = user_id (currentUser s)\<rparr>;
                        pers = \<lparr>persistence_name = docName (cfg s) dealId,
                                persistence_document = guid doc\<rparr>;
                        aw = \<lparr>awareness_user = currentUser s, awareness_deal = dealId,
                              awareness_joinedAt = now s\<rparr>;
                        s2 = s1\<lparr>documents := map_set (documents s1) dealId doc,
                                providers := map_set (providers s1) dealId prov,
                                persistence := map_set (persistence s1) dealId pers,
                                awareness := map_set (awareness s1) dealId aw\<rparr>;
                        s3 = (if performanceMonitoring (cfg s) then
                                emit ''performanceUpdate'' dealId
                                  (s2\<lparr>performanceMetrics := (performanceMetrics s2)
                                        \<lparr>connectionCount :=
                                           connectionCount (performanceMetrics s2) + 1,
                                         syncTotalTime :=
                                           syncTotalTime (performanceMetrics s2) + elapsed s\<rparr>\<rparr>)
                              else s2)
                    in (Inr doc, emit ''dealJoined'' dealId s3)))))"

section \<open>CRMRealtimeManager: connection management\<close>

definition clearTimeout :: "nat \<Rightarrow> manager \<Rightarrow> manager" where
  "clearTimeout h s = s\<lparr>timers := filter (\<lambda>t. timer_handle t \<noteq> h) (timers s)\<rparr>"

text \<open>\<open>if (timeout)\<close>: the handle 0 is falsy.\<close>

definition cancelReconnection :: "string \<Rightarrow> manager \<Rightarrow> manager" where
  "cancelReconnection dealId s =
     (case map_get (reconnectTimeouts s) dealId of
        Some h \<Rightarrow>
          (if h \<noteq> 0 then
             (clearTimeout h s)\<lparr>reconnectTimeouts := map_delete (reconnectTimeouts s) dealId\<rparr>
           else s)
      | None \<Rightarrow> s)"

definition handleProviderConnect :: "string \<Rightarrow> manager \<Rightarrow> manager" where
  "handleProviderConnect dealId s =
     emit ''connected'' dealId (cancelReconnection dealId (s\<lparr>reconnectAttempts := 0\<rparr>))"

text \<open>The delay \<open>scheduleReconnection\<close> computes,
  \<open>Math.min(reconnectDelay * Math.pow(2, reconnectAttempts), 30000)\<close>, over the integers.\<close>

definition backoffDelay :: "int \<Rightarrow> nat \<Rightarrow> int" where
  "backoffDelay base attempt = min (base * 2 ^ attempt) 30000"

definition scheduleReconnection :: "string \<Rightarrow> manager \<Rightarrow> manager" where
  "scheduleReconnection dealId s =
     (if int (reconnectAttempts s) \<ge> maxReconnectAttempts (cfg s) then
        emit ''reconnectionFailed'' dealId s
      else
        (let delay = backoffDelay (reconnectDelay (cfg s)) (reconnectAttempts s);
             timeout = nextHandle s
         in s\<lparr>timers := timers s @
                  [\<lparr>timer_handle = timeout, timer_delay = delay, timer_deal = dealId\<rparr>],
               nextHandle := nextHandle s + 1,
               reconnectTimeouts := map_set (reconnectTimeouts s) dealId timeout\<rparr>))"

definition handleProviderDisconnect :: "string \<Rightarrow> manager \<Rightarrow> manager" where
  "handleProviderDisconnect dealId s =
     (let s1 = emit ''disconnected'' dealId s
      in if isOnline s1 then scheduleReconnection dealId s1 else s1)"

text \<open>The callback of a reconnection timer, run by the event loop when the timer is due.\<close>

definition fire :: "timer \<Rightarrow> manager \<Rightarrow> manager" where
  "fire t s =
     (let s1 = s\<lparr>timers := filter (\<lambda>u. timer_handle u \<noteq> timer_handle t) (timers s)\<rparr>
      in if isOnline s1 \<and> map_has (providers s1) (timer_deal t) then
           s1\<lparr>reconnectAttempts := reconnectAttempts s1 + 1,
              connectCalls := connectCalls s1 @ [timer_deal t]\<rparr>
         else s1)"

section \<open>CRMRealtimeManager: conflict resolution\<close>

text \<open>
  A value written to the shared map together with its stamp, as \<open>syncDealPosition\<close>
  writes it: the time of the write, the writer, and the other entries.
\<close>

record stamped =
  updatedAt :: int
  updatedBy :: string
  payload_entries :: "jsval jsobject"

text \<open>\<open>{ ...a, ...b }\<close>: the entries of \<open>a\<close>, each overwritten or followed by those of
  \<open>b\<close>.\<close>

definition spread2 :: "jsval jsobject \<Rightarrow> jsval jsobject \<Rightarrow> jsval jsobject" where
  "spread2 a b = set_all (spread a) b"

text \<open>\<open>None\<close> is \<open>undefined\<close>: \<open>emit\<close> returns nothing.\<close>

definition resolveConflict ::
  "string \<Rightarrow> string \<Rightarrow> stamped \<Rightarrow> stamped \<Rightarrow> string \<Rightarrow> manager \<Rightarrow> stamped option \<times> manager"
  where
  "resolveConflict dealId field localValue remoteValue strategy s =
     (if strategy = ''last-write-wins'' then
        (Some (if updatedAt remoteValue > updatedAt localValue then remoteValue else localValue), s)
      else if strategy = ''merge-objects'' then
        (Some \<lparr>updatedAt = updatedAt remoteValue, updatedBy = updatedBy remoteValue,
               payload_entries = spread2 (payload_entries localValue) (payload_entries remoteValue)\<rparr>, s)
      else if strategy = ''custom'' then
        (None, emit ''conflictResolution'' dealId s)
      else (Some remoteValue, s))"

section \<open>APIManager: state and environment\<close>

text \<open>
  An entry of the offline queue. \<open>queueOfflineOperation\<close> enqueues an operation on an
  entity; \<open>handleOfflineRequest\<close> enqueues a raw request, which has no
  \<open>operation\<close> field.
\<close>

datatype queued =
    Operation string string "jsval jsobject"
  | Request string string "jsval jsobject option"

record queue_item =
  item_id :: string
  item_body :: queued
  item_timestamp :: nat
  retries :: nat

record retry_config =
  attempts :: nat
  baseDelay :: nat
  maxDelay :: nat
  backoffFactor :: nat
  jitter :: bool

text \<open>What \<open>fetch\<close> does: it rejects with an error, or resolves with a response whose
  body is a JSON object.\<close>

record http_response =
  response_ok :: bool
  response_status :: nat
  response_statusText :: string
  response_data :: "jsval jsobject"

datatype fetched = FetchRejects js_error | FetchResolves http_response

text \<open>What \<open>localStorage\<close> holds under a key of the client: nothing (or the empty
  text), a text that does not parse, or a text that parses to an object.\<close>

datatype stored = Missing | Corrupt | Kept "jsval jsobject"

text \<open>
  The environment of the client: the outcome of the n-th call of \<open>fetch\<close>, the n-th
  value of \<open>Math.random()\<close> (as the nine characters \<open>generateId\<close> cuts from it and as
  the milliseconds of jitter \<open>calculateRetryDelay\<close> makes of it), the text
  \<open>toISOString\<close> gives a time, and what \<open>localStorage\<close> holds under
  \<open>nocodb_offline_\<close> followed by a key other than \<open>queue\<close> (no modelled method
  writes there).
\<close>

record world =
  fetch :: "nat \<Rightarrow> fetched"
  random36 :: "nat \<Rightarrow> string"
  random1000 :: "nat \<Rightarrow> nat"
  toISOString :: "nat \<Rightarrow> string"
  stored_item :: "string \<Rightarrow> stored"

type_synonym cache_key = "string \<times> string \<times> jsval jsobject"

text \<open>What the constructor fixes and no method assigns again.\<close>

record settings =
  orgId :: string
  projectId :: string
  retryConfig :: retry_config
  cacheEnabled :: bool
  cacheTtl :: nat

text \<open>
  The fields of the \<open>APIManager\<close> the modelled methods write. \<open>storedQueue\<close>
  is the queue as \<open>localStorage\<close> holds it, \<open>events\<close> the sequence of \<open>emit\<close>
  calls, each with the name of the event and the entries of its detail,
  \<open>console_error\<close> what \<open>logError\<close> printed, \<open>yjsDeals\<close> the shared map of deals
  (\<open>None\<close> when Yjs is not loaded), and \<open>clock\<close> is \<open>Date.now()\<close>.
\<close>

type_synonym detail = "(string \<times> jsdata) list"

record api =
  isConnected :: bool
  offlineQueue :: "queue_item list"
  storedQueue :: "queue_item list option"
  events :: "(string \<times> detail) list"
  console_error :: "string list"
  cacheStorage :: "(cache_key, jsval jsobject \<times> nat) jsmap"
  yjsDeals :: "(jsval, jsval jsobject) jsmap option"
  clock :: nat
  fetchCalls :: nat
  randomCalls :: nat

record request_result =
  result_ok :: bool
  result_data :: "jsval jsobject"
  result_error :: string
  result_status :: nat

section \<open>APIManager: utilities\<close>

text \<open>Decimal text of a number, as a template string prints it.\<close>

fun string_of_nat :: "nat \<Rightarrow> string" where
  "string_of_nat n =
     (if n < 10 then [''0123456789'' ! n]
      else string_of_nat (n div 10) @ [''0123456789'' ! (n mod 10)])"

declare string_of_nat.simps [simp del]

text \<open>The text a template string makes of a value.\<close>

fun to_string :: "jsval \<Rightarrow> string" where
  "to_string JUndefined = ''undefined''"
| "to_string JNull = ''null''"
| "to_string (JBool b) = (if b then ''true'' else ''false'')"
| "to_string (JNum n) = (if n < 0 then ''-'' @ string_of_nat (nat (- n)) else string_of_nat (nat n))"
| "to_string (JStr str) = str"

text \<open>\<open>s.includes(sub)\<close>.\<close>

fun js_includes :: "string \<Rightarrow> string \<Rightarrow> bool" where
  "js_includes [] sub = (sub = [])"
| "js_includes (c # cs) sub = (startsWith (c # cs) sub \<or> js_includes cs sub)"

definition isNetworkError :: "js_error \<Rightarrow> bool" where
  "isNetworkError error =
     (err_name error = ''TypeError'' \<or> err_name error = ''NetworkError'' \<or>
      js_includes (err_message error) ''fetch'' \<or> js_includes (err_message error) ''network'')"

definition HTTPError :: "string \<Rightarrow> nat \<Rightarrow> js_error" where
  "HTTPError msg st = \<lparr>err_name = ''HTTPError'', err_message = msg, err_status = st\<rparr>"

definition APIError :: "string \<Rightarrow> nat \<Rightarrow> js_error" where
  "APIError msg st = \<lparr>err_name = ''APIError'', err_message = msg, err_status = st\<rparr>"

definition shouldRetry :: "js_error \<Rightarrow> bool" where
  "shouldRetry error =
     (if err_name error = ''HTTPError'' then
        err_status error \<ge> 500 \<or> err_status error = 429 \<or> err_status error = 408 \<or>
        err_status error = 409
      else isNetworkError error)"

definition calculateRetryDelay :: "settings \<Rightarrow> world \<Rightarrow> nat \<Rightarrow> api \<Rightarrow> nat \<times> api" where
  "calculateRetryDelay c w retryCount s =
     (let d = baseDelay (retryConfig c) * backoffFactor (retryConfig c) ^ retryCount
      in if jitter (retryConfig c) then
           (min (d + random1000 w (randomCalls s)) (maxDelay (retryConfig c)),
            s\<lparr>randomCalls := randomCalls s + 1\<rparr>)
         else (min d (maxDelay (retryConfig c)), s))"

definition delay :: "nat \<Rightarrow> api \<Rightarrow> api" where
  "delay ms s = s\<lparr>clock := clock s + ms\<rparr>"

definition generateId :: "world \<Rightarrow> string \<Rightarrow> api \<Rightarrow> string \<times> api" where
  "generateId w prefix s =
     (prefix @ ''_'' @ string_of_nat (clock s) @ ''_'' @ random36 w (randomCalls s),
      s\<lparr>randomCalls := randomCalls s + 1\<rparr>)"

definition api_emit :: "string \<Rightarrow> detail \<Rightarrow> api \<Rightarrow> api" where
  "api_emit eventName detail s = s\<lparr>events := events s @ [(eventName, detail)]\<rparr>"

definition logError :: "string \<Rightarrow> api \<Rightarrow> api" where
  "logError msg s = s\<lparr>console_error := console_error s @ [msg]\<rparr>"

definition setOfflineQueue :: "api \<Rightarrow> api" where
  "setOfflineQueue s = s\<lparr>storedQueue := Some (offlineQueue s)\<rparr>"

definition queueOfflineOperation ::
  "world \<Rightarrow> string \<Rightarrow> string \<Rightarrow> jsval jsobject \<Rightarrow> api \<Rightarrow> api" where
  "queueOfflineOperation w operation ty payload s =
     (case generateId w ''queue'' s of
        (ident, s1) \<Rightarrow>
          setOfflineQueue
            (s1\<lparr>offlineQueue := offlineQueue s1 @
                   [\<lparr>item_id = ident, item_body = Operation operation ty payload,
                     item_timestamp = clock s1, retries = 0\<rparr>]\<rparr>))"

definition handleOfflineRequest ::
  "world \<Rightarrow> string \<Rightarrow> string \<Rightarrow> jsval jsobject option \<Rightarrow> api \<Rightarrow> api" where
  "handleOfflineRequest w method endpoint payload s =
     (case generateId w ''offline_request'' s of
        (ident, s1) \<Rightarrow>
          (let s2 = s1\<lparr>offlineQueue := offlineQueue s1 @
                        [\<lparr>item_id = ident, item_body = Request method endpoint payload,
                          item_timestamp = clock s1, retries = 0\<rparr>]\<rparr>
           in api_emit ''requestQueued''
                [(''method'', Val (JStr method)), (''endpoint'', Val (JStr endpoint)),
                 (''queueSize'', Val (JNum (int (length (offlineQueue s2)))))] s2))"

text \<open>\<open>getOfflineData(key)\<close>, for a key other than \<open>queue\<close>: the object stored under
  it, or \<open>null\<close>; a text that does not parse is reported to the error log.\<close>

definition getOfflineData :: "world \<Rightarrow> string \<Rightarrow> api \<Rightarrow> jsval jsobject option \<times> api" where
  "getOfflineData w key s =
     (case stored_item w key of
        Missing \<Rightarrow> (None, s)
      | Corrupt \<Rightarrow> (None, logError ''Failed to get offline data:'' s)
      | Kept obj \<Rightarrow> (Some obj, s))"

section \<open>APIManager: the response cache\<close>

definition getCachedResponse ::
  "settings \<Rightarrow> cache_key \<Rightarrow> api \<Rightarrow> jsval jsobject option \<times> api" where
  "getCachedResponse c key s =
     (if \<not> cacheEnabled c then (None, s)
      else (case map_get (cacheStorage s) key of
              None \<Rightarrow> (None, s)
            | Some (cached, stamp) \<Rightarrow>
                (if int (clock s) - int stamp > int (cacheTtl c) then
                   (None, s\<lparr>cacheStorage := map_delete (cacheStorage s) key\<rparr>)
                 else (Some cached, s))))"

definition cleanupCache :: "settings \<Rightarrow> api \<Rightarrow> api" where
  "cleanupCache c s =
     s\<lparr>cacheStorage :=
         filter (\<lambda>e. \<not> int (clock s) - int (snd (snd e)) > int (cacheTtl c)) (cacheStorage s)\<rparr>"

definition setCachedResponse :: "settings \<Rightarrow> cache_key \<Rightarrow> jsval jsobject \<Rightarrow> api \<Rightarrow> api" where
  "setCachedResponse c key payload s =
     (if \<not> cacheEnabled c then s
      else cleanupCache c (s\<lparr>cacheStorage := map_set (cacheStorage s) key (payload, clock s)\<rparr>))"

section \<open>APIManager: requests\<close>

text \<open>
  \<open>makeRequest\<close>. No interceptor is registered (the constructor leaves both lists
  empty), so the request and the response pass unchanged. A response that is not
  \<open>ok\<close> is thrown as an \<open>HTTPError\<close> inside the \<open>try\<close> and lands in the same
  \<open>catch\<close> as a rejected \<open>fetch\<close>.
\<close>

definition cache_lookup ::
  "settings \<Rightarrow> string \<Rightarrow> cache_key \<Rightarrow> bool \<Rightarrow> api \<Rightarrow> jsval jsobject option \<times> api" where
  "cache_lookup c method cacheKey useCache s =
     (if method = ''GET'' \<and> useCache \<and> cacheEnabled c then getCachedResponse c cacheKey s
      else (None, s))"

definition try_fetch ::
  "settings \<Rightarrow> world \<Rightarrow> string \<Rightarrow> cache_key \<Rightarrow> api \<Rightarrow> (js_error + request_result) \<times> api" where
  "try_fetch c w method cacheKey s =
     (let s1 = s\<lparr>fetchCalls := fetchCalls s + 1\<rparr>
      in (case fetch w (fetchCalls s) of
            FetchRejects error \<Rightarrow> (Inl error, s1)
          | FetchResolves response \<Rightarrow>
              (if \<not> response_ok response then
                 (Inl (HTTPError (''HTTP '' @ string_of_nat (response_status response) @ '': '' @
                                  response_statusText response)
                         (response_status response)), s1)
               else
                 (Inr \<lparr>result_ok = True, result_data = response_data response,
                       result_error = [], result_status = response_status response\<rparr>,
                  if method = ''GET'' \<and> cacheEnabled c then
                    setCachedResponse c cacheKey (response_data response) s1
                  else s1))))"

definition catch_request ::
  "world \<Rightarrow> string \<Rightarrow> string \<Rightarrow> jsval jsobject option \<Rightarrow> js_error \<Rightarrow> api \<Rightarrow> api" where
  "catch_request w method endpoint payload error s =
     (let s1 = logError (''API request failed ('' @ method @ '' '' @ endpoint @ ''):'') s
      in if isNetworkError error then handleOfflineRequest w method endpoint payload s1 else s1)"

function makeRequest ::
  "settings \<Rightarrow> world \<Rightarrow> string \<Rightarrow> string \<Rightarrow> jsval jsobject option \<Rightarrow> nat \<Rightarrow> bool \<Rightarrow> api
   \<Rightarrow> request_result \<times> api" where
  "makeRequest c w method endpoint payload retryCount useCache s =
     (let cacheKey = (method, endpoint, (case payload of Some d \<Rightarrow> d | None \<Rightarrow> []))
      in (case cache_lookup c method cacheKey useCache s of
            (Some cached, s0) \<Rightarrow>
              (\<lparr>result_ok = True, result_data = cached, result_error = [], result_status = 0\<rparr>,
               s0)
          | (None, s0) \<Rightarrow>
              (case try_fetch c w method cacheKey s0 of
                 (Inr result, s1) \<Rightarrow> (result, s1)
               | (Inl error, s1) \<Rightarrow>
                   (let s2 = catch_request w method endpoint payload error s1
                    in if retryCount < attempts (retryConfig c) \<and> shouldRetry error then
                         (case calculateRetryDelay c w retryCount s2 of
                            (d, s3) \<Rightarrow>
                              makeRequest c w method endpoint payload (retryCount + 1) useCache
                                (delay d s3))
                       else
                         (\<lparr>result_ok = False, result_data = [],
                           result_error = err_message error,
                           result_status = err_status error\<rparr>, s2)))))"
  by pat_completeness auto
termination
  by (relation "measure (\<lambda>(c, w, method, endpoint, payload, retryCount, useCache, s).
                  attempts (retryConfig c) - retryCount)") auto

declare makeRequest.simps [simp del]

section \<open>APIManager: deals\<close>

fun truthy :: "jsval \<Rightarrow> bool" where
  "truthy JUndefined = False"
| "truthy JNull = False"
| "truthy (JBool b) = b"
| "truthy (JNum n) = (n \<noteq> 0)"
| "truthy (JStr s) = (s \<noteq> [])"

text \<open>What \<open>trim\<close> strips, among the characters a \<open>string\<close> here can hold (those up
  to U+00FF): the white space and the line terminators of the language.\<close>

definition whitespace :: "char list" where
  "whitespace = [CHR '' '', CHR 0x09, CHR 0x0A, CHR 0x0B, CHR 0x0C, CHR 0x0D, CHR 0xA0]"

definition trim :: "string \<Rightarrow> string" where
  "trim s = rev (dropWhile (\<lambda>ch. ch \<in> set whitespace)
                  (rev (dropWhile (\<lambda>ch. ch \<in> set whitespace) s)))"

definition deal_statuses :: "string list" where
  "deal_statuses = [''new'', ''qualifying'', ''proposal'', ''negotiation'', ''won'', ''lost'']"

text \<open>\<open>validateDealData\<close>: the error it throws, if any. A title that is truthy and
  no string has no \<open>trim\<close> method.\<close>

definition title_check :: "jsval \<Rightarrow> js_error option" where
  "title_check title =
     (if \<not> truthy title then Some (Error ''Deal title is required'')
      else (case title of
              JStr t \<Rightarrow> (if trim t = [] then Some (Error ''Deal title is required'') else None)
            | _ \<Rightarrow> Some (TypeError ''dealData.title.trim is not a function'')))"

definition amount_check :: "jsval \<Rightarrow> js_error option" where
  "amount_check amount =
     (case amount of
        JUndefined \<Rightarrow> None
      | JNum n \<Rightarrow> (if n < 0 then Some (Error ''Deal amount must be a positive number'') else None)
      | _ \<Rightarrow> Some (Error ''Deal amount must be a positive number''))"

definition status_check :: "jsval \<Rightarrow> js_error option" where
  "status_check st =
     (if truthy st \<and> st \<notin> set (map JStr deal_statuses) then Some (Error ''Invalid deal status'')
      else None)"

definition probability_check :: "jsval \<Rightarrow> js_error option" where
  "probability_check probability =
     (case probability of
        JUndefined \<Rightarrow> None
      | JNum n \<Rightarrow>
          (if n < 0 \<or> n > 100 then Some (Error ''Deal probability must be between 0 and 100'')
           else None)
      | _ \<Rightarrow> Some (Error ''Deal probability must be between 0 and 100''))"

definition validateDealData :: "jsval jsobject \<Rightarrow> js_error option" where
  "validateDealData dealData =
     (case title_check (get_prop dealData ''title'') of
        Some e \<Rightarrow> Some e
      | None \<Rightarrow>
          (case amount_check (get_prop dealData ''amount'') of
             Some e \<Rightarrow> Some e
           | None \<Rightarrow>
               (case status_check (get_prop dealData ''status'') of
                  Some e \<Rightarrow> Some e
                | None \<Rightarrow> probability_check (get_prop dealData ''probability''))))"

text \<open>The table \<open>tables.deals.fields\<close>, in the order the two transformations use it.\<close>

definition writable_fields :: "(string \<times> string) list" where
  "writable_fields =
     [(''title'', ''Title''), (''amount'', ''Amount''), (''status'', ''Status''),
      (''company'', ''Company''), (''contact'', ''Contact''), (''notes'', ''Notes''),
      (''priority'', ''Priority''), (''stage'', ''Stage''), (''probability'', ''Probability''),
      (''expected_close_date'', ''ExpectedCloseDate'')]"

definition deal_fields :: "(string \<times> string) list" where
  "deal_fields =
     (''id'', ''Id'') # writable_fields @
     [(''created_at'', ''CreatedAt''), (''updated_at'', ''UpdatedAt'')]"

definition transformDealToAPI :: "world \<Rightarrow> jsval jsobject \<Rightarrow> api \<Rightarrow> jsval jsobject" where
  "transformDealToAPI w dealData s =
     obj_set
       (map (\<lambda>(f, column). (column, get_prop dealData f))
          (filter (\<lambda>(f, column). get_prop dealData f \<noteq> JUndefined) writable_fields))
       ''UpdatedAt'' (JStr (toISOString w (clock s)))"

definition transformDealFromAPI :: "jsval jsobject \<Rightarrow> jsval jsobject" where
  "transformDealFromAPI apiData = map (\<lambda>(f, column). (f, get_prop apiData column)) deal_fields"

definition buildDataEndpoint_deals :: "settings \<Rightarrow> string" where
  "buildDataEndpoint_deals c = ''/api/v1/db/data/'' @ orgId c @ ''/'' @ projectId c @ ''/deals''"

text \<open>\<open>updateYjsDocument('deals', operation, data)\<close>.\<close>

definition updateYjsDocument_deals :: "string \<Rightarrow> jsval jsobject \<Rightarrow> api \<Rightarrow> api" where
  "updateYjsDocument_deals operation payload s =
     (case yjsDeals s of
        None \<Rightarrow> s
      | Some m \<Rightarrow>
          (if operation = ''create'' \<or> operation = ''update'' then
             s\<lparr>yjsDeals := Some (map_set m (get_prop payload ''id'') payload)\<rparr>
           else if operation = ''delete'' then
             s\<lparr>yjsDeals := Some (map_delete m (get_prop payload ''id''))\<rparr>
           else s))"

record create_options =
  optimistic :: bool
  validate :: bool

text \<open>The \<open>try\<close> block of \<open>createDeal\<close>: what it throws, or the deal it returns.\<close>

definition createDeal_try ::
  "settings \<Rightarrow> world \<Rightarrow> jsval jsobject \<Rightarrow> create_options \<Rightarrow> api
   \<Rightarrow> (js_error + jsval jsobject) \<times> api" where
  "createDeal_try c w dealData options s =
     (case (if validate options then validateDealData dealData else None) of
        Some e \<Rightarrow> (Inl e, s)
      | None \<Rightarrow>
          (let endpoint = buildDataEndpoint_deals c;
               apiData = transformDealToAPI w dealData s;
               s1 = (if optimistic options then
                       api_emit ''dealCreatedOptimistic''
                         [(''deal'', Obj (obj_set (spread dealData) ''id''
                                          (JStr (''temp_'' @ string_of_nat (clock s)))))] s
                     else s)
           in (case makeRequest c w ''POST'' endpoint (Some apiData) 0 True s1 of
                 (response, s2) \<Rightarrow>
                   (if result_ok response then
                      (let createdDeal = transformDealFromAPI (result_data response)
                       in (Inr createdDeal,
                           api_emit ''dealCreated'' [(''deal'', Obj createdDeal)]
                             (updateYjsDocument_deals ''create'' createdDeal s2)))
                    else
                      (Inl (APIError (''Failed to create deal: '' @ result_error response)
                              (result_status response)),
                       if optimistic options then
                         api_emit ''dealCreateFailed''
                           [(''error'', Val (JStr (result_error response)))] s2
                       else s2)))))"

text \<open>\<open>createDeal\<close>: the \<open>catch\<close> block queues the deal and returns a placeholder when
  the error thrown in the \<open>try\<close> block looks like a network error, and throws it
  again otherwise.\<close>

definition createDeal ::
  "settings \<Rightarrow> world \<Rightarrow> jsval jsobject \<Rightarrow> create_options \<Rightarrow> api
   \<Rightarrow> (js_error + jsval jsobject) \<times> api" where
  "createDeal c w dealData options s =
     (case createDeal_try c w dealData options s of
        (Inr deal, s1) \<Rightarrow> (Inr deal, s1)
      | (Inl error, s1) \<Rightarrow>
          (let s2 = logError ''createDeal failed:'' s1
           in if isNetworkError error then
                (let s3 = queueOfflineOperation w ''create'' ''deals'' dealData s2
                 in (Inr (obj_set (obj_set (spread dealData) ''id''
                                     (JStr (''offline_'' @ string_of_nat (clock s3))))
                            ''_offline'' (JBool True)), s3))
              else (Inl error, s2)))"

text \<open>
  \<open>getDeal(id)\<close> with its default options, as the methods below call it: the relations
  to include make the query \<open>include=company%2Ccontact\<close>. When the request fails it
  looks for the deal in \<open>localStorage\<close> and throws the error if none is there.
\<close>

definition getDeal ::
  "settings \<Rightarrow> world \<Rightarrow> jsval \<Rightarrow> api \<Rightarrow> (js_error + jsval jsobject) \<times> api" where
  "getDeal c w ident s =
     (let endpoint = buildDataEndpoint_deals c @ ''/'' @ to_string ident;
          fullEndpoint = endpoint @ ''?'' @ ''include=company%2Ccontact''
      in (case makeRequest c w ''GET'' fullEndpoint None 0 True s of
            (response, s1) \<Rightarrow>
              (if result_ok response then
                 (let deal = transformDealFromAPI (result_data response)
                  in (Inr deal, api_emit ''dealLoaded'' [(''deal'', Obj deal)] s1))
               else
                 (let error = APIError (''Failed to fetch deal: '' @ result_error response)
                                (result_status response);
                      s2 = logError (''getDeal('' @ to_string ident @ '') failed:'') s1
                  in (case getOfflineData w (''deal_'' @ to_string ident) s2 of
                        (Some cached, s3) \<Rightarrow> (Inr cached, s3)
                      | (None, s3) \<Rightarrow> (Inl error, s3))))))"

record update_options =
  optimistic_update :: bool
  conflictResolution :: string
  validate_update :: bool

text \<open>
  The \<open>try\<close> block of \<open>updateDeal\<close> up to the answer to its \<open>PATCH\<close>: the deal it
  returns, the error it throws, or the conflict (status 409) it hands to
  \<open>handleUpdateConflict\<close>.
\<close>

datatype attempt = Done "jsval jsobject" | Failed js_error | Conflict

definition updateDeal_attempt ::
  "settings \<Rightarrow> world \<Rightarrow> jsval \<Rightarrow> jsval jsobject \<Rightarrow> update_options \<Rightarrow> api \<Rightarrow> attempt \<times> api" where
  "updateDeal_attempt c w ident dealData options s =
     (case (if validate_update options then validateDealData dealData else None) of
        Some e \<Rightarrow> (Failed e, s)
      | None \<Rightarrow>
          (case getDeal c w ident s of
             (Inl e, s1) \<Rightarrow> (Failed e, s1)
           | (Inr currentDeal, s1) \<Rightarrow>
               (let endpoint = buildDataEndpoint_deals c @ ''/'' @ to_string ident;
                    apiData = transformDealToAPI w dealData s1;
                    apiData1 = (if truthy (get_prop currentDeal ''updated_at'') then
                                  obj_set apiData ''_version'' (get_prop currentDeal ''updated_at'')
                                else apiData);
                    s2 = (if optimistic_update options then
                            api_emit ''dealUpdatedOptimistic''
                              [(''deal'', Obj (spread2 currentDeal dealData))] s1
                          else s1)
                in (case makeRequest c w ''PATCH'' endpoint (Some apiData1) 0 True s2 of
                      (response, s3) \<Rightarrow>
                        (if result_ok response then
                           (let updatedDeal = transformDealFromAPI (result_data response)
                            in (Done updatedDeal,
                                api_emit ''dealUpdated''
                                  [(''deal'', Obj updatedDeal), (''previous'', Obj currentDeal)]
                                  (updateYjsDocument_deals ''update'' updatedDeal s3)))
                         else if result_status response = 409 then (Conflict, s3)
                         else
                           (Failed (APIError (''Failed to update deal: '' @ result_error response)
                                      (result_status response)),
                            if optimistic_update options then
                              api_emit ''dealUpdateFailed''
                                [(''id'', Val ident),
                                 (''error'', Val (JStr (result_error response)))] s3
                            else s3))))))"

text \<open>
  The \<open>catch\<close> block of \<open>updateDeal\<close>, given the own entries of \<open>dealData\<close>: an error
  that looks like a network error queues \<open>{ id, ...dealData }\<close> and makes the call
  return \<open>{ ...dealData, id, _offline: true }\<close>; any other error is thrown again.
\<close>

definition updateDeal_catch ::
  "world \<Rightarrow> jsval \<Rightarrow> jsval jsobject \<Rightarrow> js_error \<Rightarrow> api \<Rightarrow> (js_error + jsval jsobject) \<times> api"
  where
  "updateDeal_catch w ident dealData error s =
     (let s1 = logError (''updateDeal('' @ to_string ident @ '') failed:'') s
      in if isNetworkError error then
           (Inr (obj_set (obj_set (spread dealData) ''id'' ident) ''_offline'' (JBool True)),
            queueOfflineOperation w ''update'' ''deals'' (set_all [(''id'', ident)] dealData) s1)
         else (Inl error, s1))"

text \<open>
  \<open>updateDeal(id, value, { optimistic: false })\<close> for a \<open>value\<close> that is no object, which
  is what \<open>handleUpdateConflict\<close> passes on when the resolution it holds has no
  \<open>resolved\<close>. The validation reads \<open>value.title\<close>: of \<open>undefined\<close> and \<open>null\<close> that
  is a \<open>TypeError\<close>, and these have no entries to spread; of any other value it is
  \<open>undefined\<close>, so the title is missing.
\<close>

definition updateDeal_of_value ::
  "world \<Rightarrow> jsval \<Rightarrow> jsval \<Rightarrow> api \<Rightarrow> (js_error + jsval jsobject) \<times> api" where
  "updateDeal_of_value w ident v s =
     (case v of
        JUndefined \<Rightarrow>
          updateDeal_catch w ident []
            (TypeError ''Cannot read properties of undefined (reading title)'') s
      | JNull \<Rightarrow>
          updateDeal_catch w ident []
            (TypeError ''Cannot read properties of null (reading title)'') s
      | _ \<Rightarrow>
          (Inl (Error ''Deal title is required''),
           logError (''updateDeal('' @ to_string ident @ '') failed:'') s))"

text \<open>
  \<open>updateDeal\<close> and \<open>handleUpdateConflict\<close> call each other: a conflict is resolved
  against the deal as the server has it, and the resolved data are sent with a new
  call of \<open>updateDeal\<close>, which may meet a conflict again. The first argument bounds the
  depth of these calls; \<open>None\<close> means that the call has not returned within it. What
  \<open>handleUpdateConflict\<close> throws is caught by the \<open>updateDeal\<close> that called it.
\<close>

fun updateDeal ::
  "nat \<Rightarrow> settings \<Rightarrow> world \<Rightarrow> jsval \<Rightarrow> jsval jsobject \<Rightarrow> update_options \<Rightarrow> api
   \<Rightarrow> ((js_error + jsval jsobject) \<times> api) option"
and handleUpdateConflict ::
  "nat \<Rightarrow> settings \<Rightarrow> world \<Rightarrow> jsval \<Rightarrow> jsval jsobject \<Rightarrow> string \<Rightarrow> api
   \<Rightarrow> ((js_error + jsval jsobject) \<times> api) option"
where
  "updateDeal 0 c w ident dealData options s = None"
| "updateDeal (Suc depth) c w ident dealData options s =
     (case updateDeal_attempt c w ident dealData options s of
        (Done deal, s1) \<Rightarrow> Some (Inr deal, s1)
      | (Failed error, s1) \<Rightarrow> Some (updateDeal_catch w ident dealData error s1)
      | (Conflict, s1) \<Rightarrow>
          (case handleUpdateConflict depth c w ident dealData (conflictResolution options) s1 of
             None \<Rightarrow> None
           | Some (Inr deal, s2) \<Rightarrow> Some (Inr deal, s2)
           | Some (Inl error, s2) \<Rightarrow> Some (updateDeal_catch w ident dealData error s2)))"
| "handleUpdateConflict depth c w ident localData strategy s =
     (case getDeal c w ident s of
        (Inl error, s1) \<Rightarrow>
          Some (Inl error,
                logError (''Conflict resolution failed for deal '' @ to_string ident @ '':'') s1)
      | (Inr serverData, s1) \<Rightarrow>
          (case resolve localData serverData strategy of
             Inl error \<Rightarrow>
               Some (Inl error,
                     logError (''Conflict resolution failed for deal '' @ to_string ident @ '':'')
                       s1)
           | Inr resolution \<Rightarrow>
               (let s2 = api_emit ''conflictResolved''
                           [(''id'', Val ident), (''strategy'', Val (JStr strategy)),
                            (''local'', Obj localData), (''server'', Obj serverData),
                            (''resolved'', read_resolved resolution)] s1
                in (case (case read_resolved resolution of
                            Obj resolvedData \<Rightarrow>
                              updateDeal depth c w ident resolvedData
                                \<lparr>optimistic_update = False, conflictResolution = ''merge'',
                                 validate_update = True\<rparr> s2
                          | Val v \<Rightarrow> Some (updateDeal_of_value w ident v s2)) of
                      None \<Rightarrow> None
                    | Some (Inr deal, s3) \<Rightarrow> Some (Inr deal, s3)
                    | Some (Inl error, s3) \<Rightarrow>
                        Some (Inl error,
                              logError (''Conflict resolution failed for deal '' @
                                        to_string ident @ '':'') s3)))))"

record delete_options =
  optimistic_delete :: bool
  cascade :: bool

text \<open>\<open>deleteDeal\<close>; \<open>None\<close> is the \<open>true\<close> it returns. The cascade only writes to the
  debug log.\<close>

definition deleteDeal_catch :: "world \<Rightarrow> jsval \<Rightarrow> js_error \<Rightarrow> api \<Rightarrow> js_error option \<times> api" where
  "deleteDeal_catch w ident error s =
     (let s1 = logError (''deleteDeal('' @ to_string ident @ '') failed:'') s
      in if isNetworkError error then
           (None, queueOfflineOperation w ''delete'' ''deals'' [(''id'', ident)] s1)
         else (Some error, s1))"

definition deleteDeal ::
  "settings \<Rightarrow> world \<Rightarrow> jsval \<Rightarrow> delete_options \<Rightarrow> api \<Rightarrow> js_error option \<times> api" where
  "deleteDeal c w ident options s =
     (case getDeal c w ident s of
        (Inl error, s1) \<Rightarrow> deleteDeal_catch w ident error s1
      | (Inr deal, s1) \<Rightarrow>
          (let endpoint = buildDataEndpoint_deals c @ ''/'' @ to_string ident;
               s2 = (if optimistic_delete options then
                       api_emit ''dealDeletedOptimistic''
                         [(''id'', Val ident), (''deal'', Obj deal)] s1
                     else s1)
           in (case makeRequest c w ''DELETE'' endpoint None 0 True s2 of
                 (response, s3) \<Rightarrow>
                   (if result_ok response then
                      (None,
                       api_emit ''dealDeleted'' [(''id'', Val ident), (''deal'', Obj deal)]
                         (updateYjsDocument_deals ''delete'' [(''id'', ident)] s3))
                    else
                      deleteDeal_catch w ident
                        (APIError (''Failed to delete deal: '' @ result_error response)
                           (result_status response))
                        (if optimistic_delete options then
                           api_emit ''dealDeleteFailed''
                             [(''id'', Val ident),
                              (''error'', Val (JStr (result_error response)))] s3
                         else s3)))))"

section \<open>APIManager: draining the offline queue\<close>

text \<open>
  \<open>processOfflineItem\<close> picks the member to call from the item:
  \<open>this[`create${capitalize(entityType.slice(0, -1))}`]\<close> and likewise for update
  and delete. What the manager has under a name is a parameter: nothing, a method of
  the class that is not part of this model, or a method, given as what its call does
  with the item's data: \<open>None\<close> when the call does not return, otherwise the state it
  leaves and the error it throws, if any. A call of what is not there is a
  \<open>TypeError\<close>. An item that \<open>handleOfflineRequest\<close> queued has no \<open>operation\<close>.
\<close>

datatype member =
    Absent
  | NotModelled
  | Callable "jsval jsobject \<Rightarrow> api \<Rightarrow> (js_error option \<times> api) option"

type_synonym methods = "string \<Rightarrow> member"

definition toUpperCase :: "char \<Rightarrow> char" where
  "toUpperCase ch =
     (case map_of (zip lower_case upper_case) ch of Some u \<Rightarrow> u | None \<Rightarrow> ch)"

definition capitalize :: "string \<Rightarrow> string" where
  "capitalize str = (case str of [] \<Rightarrow> [] | ch # rest \<Rightarrow> toUpperCase ch # rest)"

definition method_name :: "string \<Rightarrow> string \<Rightarrow> string" where
  "method_name operation ty = operation @ capitalize (butlast ty)"

definition processOfflineItem ::
  "methods \<Rightarrow> queue_item \<Rightarrow> api \<Rightarrow> (js_error option \<times> api) option" where
  "processOfflineItem this item s =
     (case item_body item of
        Operation operation ty payload \<Rightarrow>
          (if operation = ''create'' \<or> operation = ''update'' \<or> operation = ''delete'' then
             (case this (method_name operation ty) of
                Callable f \<Rightarrow> f payload s
              | NotModelled \<Rightarrow> None
              | Absent \<Rightarrow>
                  Some (Some (TypeError (''this.'' @ method_name operation ty @
                                         '' is not a function'')), s))
           else Some (Some (Error (''Unknown operation: '' @ operation)), s))
      | Request verb path payload \<Rightarrow> Some (Some (Error ''Unknown operation: undefined''), s))"

text \<open>
  The members of the manager whose name begins with \<open>create\<close>, \<open>update\<close> or
  \<open>delete\<close>. The three methods for deals are the ones above, called as
  \<open>processOfflineItem\<close> calls them: \<open>createDeal(data, { optimistic: false })\<close>,
  \<open>updateDeal(data.id, data, { optimistic: false })\<close> and
  \<open>deleteDeal(data.id, { optimistic: false })\<close>. \<open>updateYjsDocument\<close>, called with
  these arguments, finds no case for its operation and returns. The methods for
  contacts and companies are not part of this model.
\<close>

definition manager :: "settings \<Rightarrow> world \<Rightarrow> nat \<Rightarrow> methods" where
  "manager c w depth name =
     (if name = ''createDeal'' then
        Callable (\<lambda>payload s.
          (case createDeal c w payload \<lparr>optimistic = False, validate = True\<rparr> s of
             (Inl error, s1) \<Rightarrow> Some (Some error, s1)
           | (Inr deal, s1) \<Rightarrow> Some (None, s1)))
      else if name = ''updateDeal'' then
        Callable (\<lambda>payload s.
          (case updateDeal depth c w (get_prop payload ''id'') payload
                  \<lparr>optimistic_update = False, conflictResolution = ''merge'',
                   validate_update = True\<rparr> s of
             None \<Rightarrow> None
           | Some (Inl error, s1) \<Rightarrow> Some (Some error, s1)
           | Some (Inr deal, s1) \<Rightarrow> Some (None, s1)))
      else if name = ''deleteDeal'' then
        Callable (\<lambda>payload s.
          Some (deleteDeal c w (get_prop payload ''id'')
                  \<lparr>optimistic_delete = False, cascade = False\<rparr> s))
      else if name = ''updateYjsDocument'' then Callable (\<lambda>payload s. Some (None, s))
      else if name \<in> set [''createContact'', ''updateContact'', ''deleteContact'',
                           ''createCompany'', ''updateCompany'', ''deleteCompany''] then
        NotModelled
      else Absent)"

text \<open>
  The body of the \<open>for ... of\<close> loop of \<open>processOfflineQueue\<close>, for the item at index
  \<open>i\<close>: the replay, and what the loop does when it has returned or thrown.
  \<open>item.retries++\<close> changes the item where it sits in the array.
\<close>

definition visit ::
  "(queue_item \<Rightarrow> api \<Rightarrow> (js_error option \<times> api) option) \<Rightarrow> nat \<Rightarrow> nat \<Rightarrow> string list \<Rightarrow> api
   \<Rightarrow> (string list \<times> api) option" where
  "visit replay limit i processedItems s =
     (let item = offlineQueue s ! i
      in (case replay item s of
            None \<Rightarrow> None
          | Some (None, s1) \<Rightarrow> Some (processedItems @ [item_id item], s1)
          | Some (Some error, s1) \<Rightarrow>
              (let item1 = item\<lparr>retries := retries item + 1\<rparr>;
                   s2 = s1\<lparr>offlineQueue := (offlineQueue s1)[i := item1]\<rparr>
               in if retries item1 \<ge> limit then
                    Some (processedItems @ [item_id item],
                          logError (''Failed to process offline operation after '' @
                                    string_of_nat (retries item1) @ '' retries:'') s2)
                  else
                    Some (processedItems,
                          logError (''Offline operation failed (retry '' @
                                    string_of_nat (retries item1) @ ''):'') s2))))"

text \<open>
  The loop. The iterator reads the array by index and looks at its length again
  before every step, so an item pushed while the loop runs is visited too. The first
  argument bounds the number of steps: \<open>None\<close> means the loop has not finished within
  them, or a replay has not returned.
\<close>

fun replay_loop ::
  "nat \<Rightarrow> (queue_item \<Rightarrow> api \<Rightarrow> (js_error option \<times> api) option) \<Rightarrow> nat \<Rightarrow> nat \<Rightarrow> string list
   \<Rightarrow> api \<Rightarrow> (string list \<times> api) option" where
  "replay_loop 0 replay limit i processedItems s = None"
| "replay_loop (Suc fuel) replay limit i processedItems s =
     (if i < length (offlineQueue s) then
        (case visit replay limit i processedItems s of
           None \<Rightarrow> None
         | Some (processedItems1, s1) \<Rightarrow> replay_loop fuel replay limit (i + 1) processedItems1 s1)
      else Some (processedItems, s))"

definition processOfflineQueue :: "settings \<Rightarrow> methods \<Rightarrow> nat \<Rightarrow> api \<Rightarrow> api option" where
  "processOfflineQueue c this fuel s =
     (if \<not> isConnected s then Some s
      else if offlineQueue s = [] then Some s
      else
        (case replay_loop fuel (processOfflineItem this) (attempts (retryConfig c)) 0 [] s of
           None \<Rightarrow> None
         | Some (processedItems, s1) \<Rightarrow>
             (let s2 = setOfflineQueue
                         (s1\<lparr>offlineQueue :=
                               filter (\<lambda>item. item_id item \<notin> set processedItems)
                                 (offlineQueue s1)\<rparr>)
              in Some (api_emit ''offlineQueueProcessed''
                         [(''processed'', Val (JNum (int (length processedItems)))),
                          (''remaining'', Val (JNum (int (length (offlineQueue s2)))))] s2))))"

section \<open>APIManager: instances\<close>

text \<open>
  The settings and the state the constructor leaves, and the inputs the properties
  below are evaluated at: a network on which every \<open>fetch\<close> rejects with a given
  error, the error of \<open>AbortSignal.timeout\<close>, a server that answers the n-th request
  with a given response, three such responses, and a queue that holds the creation of
  a deal followed by an update of that deal under its placeholder identifier.
\<close>

definition default_settings :: settings where
  "default_settings =
     \<lparr>orgId = ''noco'', projectId = ''noco'',
      retryConfig = \<lparr>attempts = 3, baseDelay = 1000, maxDelay = 10000, backoffFactor = 2,
                     jitter = True\<rparr>,
      cacheEnabled = True, cacheTtl = 300000\<rparr>"

definition new_api :: api where
  "new_api =
     \<lparr>isConnected = False, offlineQueue = [], storedQueue = None, events = [],
      console_error = [], cacheStorage = [], yjsDeals = None, clock = 0, fetchCalls = 0,
      randomCalls = 0\<rparr>"

definition failing_world :: "js_error \<Rightarrow> world" where
  "failing_world error =
     \<lparr>fetch = (\<lambda>n. FetchRejects error), random36 = (\<lambda>n. ''k3j9x0q1z''),
      random1000 = (\<lambda>n. 500), toISOString = string_of_nat, stored_item = (\<lambda>key. Missing)\<rparr>"

definition timeout_error :: js_error where
  "timeout_error = \<lparr>err_name = ''TimeoutError'', err_message = ''signal timed out'', err_status = 0\<rparr>"




definition pending_create :: queue_item where
  "pending_create =
     \<lparr>item_id = ''queue_8500_k3j9x0q1z'',
      item_body = Operation ''create'' ''deals'' [(''title'', JStr ''Acme'')],
      item_timestamp = 8500, retries = 0\<rparr>"




section \<open>Vocabulary for the drain\<close>






definition is_request :: "queue_item \<Rightarrow> bool" where
  "is_request x = (case item_body x of Request m e p \<Rightarrow> True | Operation operation ty p \<Rightarrow> False)"

definition valid_creation :: "queue_item \<Rightarrow> bool" where
  "valid_creation x =
     (case item_body x of
        Operation operation ty payload \<Rightarrow>
          operation = ''create'' \<and> ty = ''deals'' \<and> validateDealData payload = None
      | Request m e p \<Rightarrow> False)"

section \<open>Properties of the conflict resolver\<close>

lemma obj_set_fresh:
  "key \<notin> set (own_keys obj) \<Longrightarrow> obj_set obj key value = obj @ [(key, value)]"
  by (induction obj) (auto simp: own_keys_def)

text \<open>The loop of \<open>merge\<close> appends the entries it accepts, in the order of \<open>local\<close>,
  as long as none of them is a key of the object it extends.\<close>

lemma merge_loop_appends:
  "distinct (map fst es) \<Longrightarrow>
   (\<forall>k \<in> set (map fst es). \<not> in_op k remote \<longrightarrow> k \<notin> set (own_keys res)) \<Longrightarrow>
   merge_loop es remote res =
     res @ filter (\<lambda>(k, v). \<not> in_op k remote \<and> \<not> startsWith k ''_'') es"
proof (induction es arbitrary: res)
  case Nil
  then show ?case by simp
next
  case (Cons e es)
  obtain key val where e: "e = (key, val)" by (cases e)
  show ?case
  proof (cases "\<not> in_op key remote \<and> \<not> startsWith key ''_''")
    case True
    then have fresh: "key \<notin> set (own_keys res)" using Cons.prems(2) e by simp
    have "merge_loop es remote (res @ [(key, val)]) =
          (res @ [(key, val)]) @
            filter (\<lambda>(k, v). \<not> in_op k remote \<and> \<not> startsWith k ''_'') es"
      using Cons.prems e by (intro Cons.IH) (auto simp: own_keys_def)
    then show ?thesis using True e fresh by (simp add: obj_set_fresh)
  next
    case False
    have "merge_loop es remote res =
          res @ filter (\<lambda>(k, v). \<not> in_op k remote \<and> \<not> startsWith k ''_'') es"
      using Cons.prems e by (intro Cons.IH) auto
    then show ?thesis using False e by auto
  qed
qed

text \<open>
  C1, as the code has it. For every well-formed object \<open>local\<close> and every \<open>remote\<close>,
  \<open>resolve(local, remote, 'merge')\<close> returns source \<open>'merged'\<close> and, as resolved
  value, \<open>remote\<close> followed by the fields of \<open>local\<close> that are not \<open>in\<close> \<open>remote\<close>
  and whose name does not start with an underscore: the fields of \<open>remote\<close> win, and
  the additions of the client survive unless their name is private (leading
  underscore) or is one every object inherits. In particular \<open>{status: "won",
  notes: "x"}\<close> against \<open>{status: "lost"}\<close> resolves to \<open>{status: "lost", notes:
  "x"}\<close>.
\<close>

theorem merge_keeps_remote_adds_local_only:
  assumes "well_formed local"
  shows "resolve local remote ''merge'' =
           Inr (Plain \<lparr>resolved =
                         remote @ filter (\<lambda>(k, v). \<not> in_op k remote \<and> \<not> startsWith k ''_'') local,
                       source = ''merged''\<rparr>) \<and>
         resolve [(''status'', JStr ''won''), (''notes'', JStr ''x'')]
                 [(''status'', JStr ''lost'')] ''merge'' =
           Inr (Plain \<lparr>resolved = [(''status'', JStr ''lost''), (''notes'', JStr ''x'')],
                       source = ''merged''\<rparr>)"
proof
  have "merge_loop local remote remote =
        remote @ filter (\<lambda>(k, v). \<not> in_op k remote \<and> \<not> startsWith k ''_'') local"
    using assms by (intro merge_loop_appends) (auto simp: well_formed_def own_keys_def in_op_def)
  then show "resolve local remote ''merge'' =
           Inr (Plain \<lparr>resolved =
                         remote @ filter (\<lambda>(k, v). \<not> in_op k remote \<and> \<not> startsWith k ''_'') local,
                       source = ''merged''\<rparr>)"
    by (simp add: resolve_def merge_def spread_def)
next
  show "resolve [(''status'', JStr ''won''), (''notes'', JStr ''x'')]
                [(''status'', JStr ''lost'')] ''merge'' =
           Inr (Plain \<lparr>resolved = [(''status'', JStr ''lost''), (''notes'', JStr ''x'')],
                       source = ''merged''\<rparr>)"
    by (simp add: resolve_def merge_def spread_def in_op_def own_keys_def
        object_prototype_keys_def startsWith_def)
qed

text \<open>The theorem at a local object with one public and one private addition.\<close>

theorem merge_keeps_remote_adds_local_only_witness:
  "well_formed [(''amount'', JNum 150), (''_offline'', JBool True)] \<and>
   resolve [(''amount'', JNum 150), (''_offline'', JBool True)] [(''title'', JStr ''Acme'')]
     ''merge'' =
     Inr (Plain \<lparr>resolved = [(''title'', JStr ''Acme''), (''amount'', JNum 150)],
                 source = ''merged''\<rparr>)"
proof -
  have wf: "well_formed [(''amount'', JNum 150), (''_offline'', JBool True)]"
    by (simp add: well_formed_def own_keys_def)
  show ?thesis
    using wf merge_keeps_remote_adds_local_only [OF wf, of "[(''title'', JStr ''Acme'')]"]
    by (simp add: in_op_def own_keys_def object_prototype_keys_def startsWith_def)
qed

text \<open>
  C1 as stated fails: the field \<open>_offline\<close> is present in \<open>local\<close> and absent in
  \<open>remote\<close>, and the resolved value does not have it.
\<close>

theorem merge_drops_underscore_field:
  "obj_get [(''status'', JStr ''won''), (''_offline'', JBool True)] ''_offline'' =
     Some (JBool True) \<and>
   obj_get [(''status'', JStr ''lost'')] ''_offline'' = None \<and>
   resolve [(''status'', JStr ''won''), (''_offline'', JBool True)]
           [(''status'', JStr ''lost'')] ''merge'' =
     Inr (Plain \<lparr>resolved = [(''status'', JStr ''lost'')], source = ''merged''\<rparr>)"
  by (simp add: obj_get_def resolve_def merge_def spread_def in_op_def own_keys_def
      object_prototype_keys_def startsWith_def)

text \<open>
  C9, at the code. For every \<open>local\<close> and \<open>remote\<close>, \<open>resolve(local, remote, 'prompt')\<close>
  does not wait for anybody, and what it returns is not what
  \<open>resolve(local, remote, 'merge')\<close> returns: it is a promise, already fulfilled with
  that resolution. A caller that reads \<open>resolved\<close> from it finds \<open>undefined\<close>. So
  \<open>mergeData\<close>, given a local and a remote version of the item 7 that differ,
  answers with the merged item under \<open>merge\<close> and with \<open>undefined\<close> in its place
  under \<open>prompt\<close>.
\<close>

theorem prompt_returns_a_promise:
  "resolve local remote ''prompt'' = Inr (Promise (Fulfilled (merge local remote))) \<and>
   resolve local remote ''merge'' = Inr (Plain (merge local remote)) \<and>
   resolve local remote ''prompt'' \<noteq> resolve local remote ''merge'' \<and>
   read_resolved (Promise (Fulfilled (merge item other))) = Val JUndefined \<and>
   read_resolved (Plain (merge item other)) = Obj (resolved (merge item other)) \<and>
   mergeData [[(''id'', JNum 7), (''_version'', JNum 1), (''notes'', JStr ''x'')]]
             [[(''id'', JNum 7), (''_version'', JNum 2), (''status'', JStr ''lost'')]] ''merge'' =
     Inr \<lparr>summary_merged =
            [Obj [(''id'', JNum 7), (''_version'', JNum 2), (''status'', JStr ''lost''),
                  (''notes'', JStr ''x'')]],
          summary_downloaded = 0, summary_conflicts = 1\<rparr> \<and>
   mergeData [[(''id'', JNum 7), (''_version'', JNum 1), (''notes'', JStr ''x'')]]
             [[(''id'', JNum 7), (''_version'', JNum 2), (''status'', JStr ''lost'')]] ''prompt'' =
     Inr \<lparr>summary_merged = [Val JUndefined], summary_downloaded = 0, summary_conflicts = 1\<rparr>"
  by (simp add: resolve_def prompt_def mergeData_def map_by_id_def get_prop_def obj_get_def
      merge_def spread_def in_op_def own_keys_def object_prototype_keys_def startsWith_def)

section \<open>Properties of the connection manager\<close>

lemma backoffDelay_mono:
  "0 \<le> base \<Longrightarrow> a \<le> b \<Longrightarrow> backoffDelay base a \<le> backoffDelay base b"
proof -
  assume base: "0 \<le> base" and ab: "a \<le> b"
  have "(2::int) ^ a \<le> 2 ^ b" using ab by (simp add: power_increasing)
  then have "base * 2 ^ a \<le> base * 2 ^ b" using base by (simp add: mult_left_mono)
  then show ?thesis by (simp add: backoffDelay_def)
qed

lemma scheduleReconnection_timers:
  "int (reconnectAttempts s) < maxReconnectAttempts (cfg s) \<Longrightarrow>
   timers (scheduleReconnection dealId s) =
     timers s @ [\<lparr>timer_handle = nextHandle s,
                  timer_delay = min (reconnectDelay (cfg s) * 2 ^ reconnectAttempts s) 30000,
                  timer_deal = dealId\<rparr>]"
  by (simp add: scheduleReconnection_def Let_def backoffDelay_def)

lemma cancelReconnection_attempts:
  "reconnectAttempts (cancelReconnection dealId s) = reconnectAttempts s"
  by (simp add: cancelReconnection_def clearTimeout_def split: option.split)

lemma handleProviderConnect_resets:
  "reconnectAttempts (handleProviderConnect dealId s) = 0"
  by (simp add: handleProviderConnect_def emit_def cancelReconnection_attempts)

text \<open>
  C3. While the retry budget lasts, \<open>scheduleReconnection\<close> sets one timer, whose delay
  is \<open>min(reconnectDelay * 2^attempt, 30000)\<close> for the current value \<open>attempt\<close> of the
  counter: the base delay is the configured \<open>reconnectDelay\<close>, the greatest delay is
  30 seconds. For a base delay that is not negative the delay never decreases as the
  counter grows, and it never exceeds the greatest delay; a timer that fires never
  lowers the counter. A successful connection
  (\<open>handleProviderConnect\<close>) puts the counter back to zero. Numbers are taken as
  integers, which is what they are for a whole number of milliseconds.
\<close>

theorem reconnection_backoff:
  "(int (reconnectAttempts s) < maxReconnectAttempts (cfg s) \<longrightarrow>
      timers (scheduleReconnection dealId s) =
        timers s @ [\<lparr>timer_handle = nextHandle s,
                     timer_delay = min (reconnectDelay (cfg s) * 2 ^ reconnectAttempts s) 30000,
                     timer_deal = dealId\<rparr>]) \<and>
   (0 \<le> base \<and> a \<le> b \<longrightarrow> backoffDelay base a \<le> backoffDelay base b) \<and>
   backoffDelay base a \<le> 30000 \<and>
   reconnectAttempts s \<le> reconnectAttempts (fire t s) \<and>
   reconnectAttempts (handleProviderConnect dealId s) = 0"
proof (intro conjI impI)
  assume "int (reconnectAttempts s) < maxReconnectAttempts (cfg s)"
  then show "timers (scheduleReconnection dealId s) =
        timers s @ [\<lparr>timer_handle = nextHandle s,
                     timer_delay = min (reconnectDelay (cfg s) * 2 ^ reconnectAttempts s) 30000,
                     timer_deal = dealId\<rparr>]"
    by (rule scheduleReconnection_timers)
next
  assume "0 \<le> base \<and> a \<le> b"
  then show "backoffDelay base a \<le> backoffDelay base b"
    by (simp add: backoffDelay_mono)
next
  show "backoffDelay base a \<le> 30000" by (simp add: backoffDelay_def)
next
  show "reconnectAttempts s \<le> reconnectAttempts (fire t s)" by (simp add: fire_def Let_def)
next
  show "reconnectAttempts (handleProviderConnect dealId s) = 0"
    by (rule handleProviderConnect_resets)
qed

text \<open>The theorem after three failed attempts of a manager with the default options: the
  next delay is 8 seconds, the fifth is 16 seconds and the sixth is capped at 30.\<close>

theorem reconnection_backoff_witness:
  "int (reconnectAttempts ((new_manager anonymous)\<lparr>reconnectAttempts := 3\<rparr>)) <
     maxReconnectAttempts (cfg ((new_manager anonymous)\<lparr>reconnectAttempts := 3\<rparr>)) \<and>
   timers (scheduleReconnection ''42'' ((new_manager anonymous)\<lparr>reconnectAttempts := 3\<rparr>)) =
     [\<lparr>timer_handle = 1, timer_delay = 8000, timer_deal = ''42''\<rparr>] \<and>
   (0::int) \<le> 1000 \<and> (4::nat) \<le> 5 \<and>
   backoffDelay 1000 4 = 16000 \<and> backoffDelay 1000 5 = 30000 \<and>
   backoffDelay 1000 4 \<le> backoffDelay 1000 5 \<and>
   reconnectAttempts
     (handleProviderConnect ''42'' ((new_manager anonymous)\<lparr>reconnectAttempts := 3\<rparr>)) = 0"
  using reconnection_backoff
    [of "(new_manager anonymous)\<lparr>reconnectAttempts := 3\<rparr>" "''42''" 1000 4 5]
  by (simp add: new_manager_def default_config_def backoffDelay_def)

lemma scheduleReconnection_exhausted:
  "int (reconnectAttempts s) \<ge> maxReconnectAttempts (cfg s) \<Longrightarrow>
   scheduleReconnection dealId s = s\<lparr>emitted := emitted s @ [(''reconnectionFailed'', dealId)]\<rparr>"
  by (simp add: scheduleReconnection_def emit_def)

text \<open>
  C8. Once the counter of reconnection attempts has reached \<open>maxReconnectAttempts\<close>,
  \<open>scheduleReconnection\<close> does nothing but emit \<open>reconnectionFailed\<close> for the
  session: it sets no timer, asks no provider to connect, and leaves the counter where
  it is, so the next call finds the budget exhausted again. A disconnection in that
  state sets no timer either.
\<close>

theorem budget_exhausted_is_terminal:
  assumes "int (reconnectAttempts s) \<ge> maxReconnectAttempts (cfg s)"
  shows "scheduleReconnection dealId s =
           s\<lparr>emitted := emitted s @ [(''reconnectionFailed'', dealId)]\<rparr> \<and>
         timers (scheduleReconnection dealId s) = timers s \<and>
         reconnectTimeouts (scheduleReconnection dealId s) = reconnectTimeouts s \<and>
         connectCalls (scheduleReconnection dealId s) = connectCalls s \<and>
         int (reconnectAttempts (scheduleReconnection dealId s)) \<ge>
           maxReconnectAttempts (cfg (scheduleReconnection dealId s)) \<and>
         timers (handleProviderDisconnect dealId s) = timers s"
proof -
  have eq: "scheduleReconnection dealId s =
            s\<lparr>emitted := emitted s @ [(''reconnectionFailed'', dealId)]\<rparr>"
    using assms by (rule scheduleReconnection_exhausted)
  have eq': "scheduleReconnection dealId (emit ''disconnected'' dealId s) =
             (emit ''disconnected'' dealId s)
               \<lparr>emitted := emitted (emit ''disconnected'' dealId s) @
                             [(''reconnectionFailed'', dealId)]\<rparr>"
    using assms by (intro scheduleReconnection_exhausted) (simp add: emit_def)
  have "timers (handleProviderDisconnect dealId s) = timers s"
    unfolding handleProviderDisconnect_def Let_def
    by (simp add: eq') (simp add: emit_def)
  then show ?thesis using assms by (simp add: eq)
qed

text \<open>The theorem for a manager with the default budget of ten attempts, all used.\<close>

theorem budget_exhausted_is_terminal_witness:
  "int (reconnectAttempts ((new_manager anonymous)\<lparr>reconnectAttempts := 10\<rparr>)) \<ge>
     maxReconnectAttempts (cfg ((new_manager anonymous)\<lparr>reconnectAttempts := 10\<rparr>)) \<and>
   emitted (scheduleReconnection ''42'' ((new_manager anonymous)\<lparr>reconnectAttempts := 10\<rparr>)) =
     [(''reconnectionFailed'', ''42'')] \<and>
   timers (scheduleReconnection ''42'' ((new_manager anonymous)\<lparr>reconnectAttempts := 10\<rparr>)) = [] \<and>
   timers (handleProviderDisconnect ''42'' ((new_manager anonymous)\<lparr>reconnectAttempts := 10\<rparr>)) =
     []"
proof -
  have h: "int (reconnectAttempts ((new_manager anonymous)\<lparr>reconnectAttempts := 10\<rparr>)) \<ge>
     maxReconnectAttempts (cfg ((new_manager anonymous)\<lparr>reconnectAttempts := 10\<rparr>))"
    by (simp add: new_manager_def default_config_def)
  show ?thesis
    using h budget_exhausted_is_terminal [OF h, of "''42''"]
    by (simp add: new_manager_def)
qed

section \<open>Properties of last-write-wins resolution\<close>

text \<open>
  C6, as the code has it. Under \<open>last-write-wins\<close> the write with the strictly later
  \<open>updatedAt\<close> wins, whichever of the two is passed as the local one. When the two
  stamps are equal the local value is kept, whoever wrote it: the writer plays no part.
\<close>

theorem lww_later_wins_local_keeps_ties:
  "(updatedAt localValue < updatedAt remoteValue \<longrightarrow>
      fst (resolveConflict dealId field localValue remoteValue ''last-write-wins'' s) =
        Some remoteValue \<and>
      fst (resolveConflict dealId field remoteValue localValue ''last-write-wins'' s) =
        Some remoteValue) \<and>
   (updatedAt localValue = updatedAt remoteValue \<longrightarrow>
      fst (resolveConflict dealId field localValue remoteValue ''last-write-wins'' s) =
        Some localValue)"
  by (auto simp: resolveConflict_def)

text \<open>The theorem at two writes five and seven, and at two writes both at five.\<close>

theorem lww_later_wins_local_keeps_ties_witness:
  "updatedAt \<lparr>updatedAt = 5, updatedBy = ''alice'', payload_entries = []\<rparr> <
   updatedAt \<lparr>updatedAt = 7, updatedBy = ''bob'', payload_entries = []\<rparr> \<and>
   fst (resolveConflict ''42'' ''position''
     \<lparr>updatedAt = 5, updatedBy = ''alice'', payload_entries = []\<rparr>
     \<lparr>updatedAt = 7, updatedBy = ''bob'', payload_entries = []\<rparr>
     ''last-write-wins'' (new_manager anonymous)) =
   fst (resolveConflict ''42'' ''position''
     \<lparr>updatedAt = 7, updatedBy = ''bob'', payload_entries = []\<rparr>
     \<lparr>updatedAt = 5, updatedBy = ''alice'', payload_entries = []\<rparr>
     ''last-write-wins'' (new_manager anonymous)) \<and>
   updatedAt \<lparr>updatedAt = 5, updatedBy = ''alice'', payload_entries = []\<rparr> =
   updatedAt \<lparr>updatedAt = 5, updatedBy = ''bob'', payload_entries = []\<rparr> \<and>
   fst (resolveConflict ''42'' ''position''
     \<lparr>updatedAt = 5, updatedBy = ''alice'', payload_entries = []\<rparr>
     \<lparr>updatedAt = 5, updatedBy = ''bob'', payload_entries = []\<rparr>
     ''last-write-wins'' (new_manager anonymous)) =
     Some \<lparr>updatedAt = 5, updatedBy = ''alice'', payload_entries = []\<rparr>"
  using lww_later_wins_local_keeps_ties
    [of "\<lparr>updatedAt = 5, updatedBy = ''alice'', payload_entries = []\<rparr>"
        "\<lparr>updatedAt = 7, updatedBy = ''bob'', payload_entries = []\<rparr>"
        "''42''" "''position''" "new_manager anonymous"]
    lww_later_wins_local_keeps_ties
    [of "\<lparr>updatedAt = 5, updatedBy = ''alice'', payload_entries = []\<rparr>"
        "\<lparr>updatedAt = 5, updatedBy = ''bob'', payload_entries = []\<rparr>"
        "''42''" "''position''" "new_manager anonymous"]
  by simp

text \<open>
  C6 as stated fails: two writes with the same stamp by different writers, resolved
  in the two orders, give two different values.
\<close>

theorem lww_ties_depend_on_order:
  "updatedAt \<lparr>updatedAt = 1700000000000, updatedBy = ''alice'',
             payload_entries = [(''x'', JNum 1)]\<rparr> =
   updatedAt \<lparr>updatedAt = 1700000000000, updatedBy = ''bob'',
             payload_entries = [(''x'', JNum 2)]\<rparr> \<and>
   fst (resolveConflict ''42'' ''position''
     \<lparr>updatedAt = 1700000000000, updatedBy = ''alice'', payload_entries = [(''x'', JNum 1)]\<rparr>
     \<lparr>updatedAt = 1700000000000, updatedBy = ''bob'', payload_entries = [(''x'', JNum 2)]\<rparr>
     ''last-write-wins'' (new_manager anonymous)) =
     Some \<lparr>updatedAt = 1700000000000, updatedBy = ''alice'',
           payload_entries = [(''x'', JNum 1)]\<rparr> \<and>
   fst (resolveConflict ''42'' ''position''
     \<lparr>updatedAt = 1700000000000, updatedBy = ''bob'', payload_entries = [(''x'', JNum 2)]\<rparr>
     \<lparr>updatedAt = 1700000000000, updatedBy = ''alice'', payload_entries = [(''x'', JNum 1)]\<rparr>
     ''last-write-wins'' (new_manager anonymous)) =
     Some \<lparr>updatedAt = 1700000000000, updatedBy = ''bob'',
           payload_entries = [(''x'', JNum 2)]\<rparr>"
  by (simp add: resolveConflict_def)

section \<open>Properties of joining a session\<close>

lemma map_get_map_set: "map_get (map_set m k v) k = Some v"
  by (induction m) (auto simp: map_get_def)

lemma joinDeal_already_joined:
  "map_get (documents s) dealId = Some doc \<Longrightarrow> joinDeal dealId options s = (Inr doc, s)"
  by (simp add: joinDeal_def)

lemma joinDeal_fresh:
  "map_get (documents s) dealId = None \<Longrightarrow> providerFault s = None \<Longrightarrow>
   fst (joinDeal dealId options s) = Inr (new_doc s options) \<and>
   documents (snd (joinDeal dealId options s)) =
     map_set (documents s) dealId (new_doc s options)"
  by (simp add: joinDeal_def Let_def emit_def)

lemma joinDeal_fault:
  "map_get (documents s) dealId = None \<Longrightarrow> providerFault s = Some err \<Longrightarrow>
   fst (joinDeal dealId options s) = Inl err"
  by (simp add: joinDeal_def Let_def)

lemma joinDeal_joins:
  assumes "joinDeal dealId options s = (Inr doc, s')"
  shows "map_get (documents s') dealId = Some doc"
proof (cases "map_get (documents s) dealId")
  case (Some existing)
  then show ?thesis using assms by (simp add: joinDeal_already_joined)
next
  case None
  show ?thesis
  proof (cases "providerFault s")
    case (Some err)
    then have "fst (joinDeal dealId options s) = Inl err"
      using None by (rule joinDeal_fault [rotated])
    then show ?thesis using assms by simp
  next
    case nofault: None
    have "fst (joinDeal dealId options s) = Inr (new_doc s options)"
      and "documents (snd (joinDeal dealId options s)) =
           map_set (documents s) dealId (new_doc s options)"
      using joinDeal_fresh [OF None nofault] by simp_all
    then show ?thesis using assms by (simp add: map_get_map_set)
  qed
qed

text \<open>
  C10. \<open>joinDeal(dealId)\<close> for a deal that is already joined returns the document the
  manager holds for it and changes nothing: no document, provider, persistence or
  awareness entry is made, no event is emitted. So joining twice is joining once:
  after a call has returned a document, a second call, with any options, returns the
  same document and leaves the manager as the first call left it.
\<close>

theorem joinDeal_idempotent:
  "(map_get (documents s) dealId = Some doc \<longrightarrow> joinDeal dealId options s = (Inr doc, s)) \<and>
   (joinDeal dealId options s = (Inr doc, s') \<longrightarrow>
      joinDeal dealId options' s' = (Inr doc, s'))"
proof (intro conjI impI)
  assume "map_get (documents s) dealId = Some doc"
  then show "joinDeal dealId options s = (Inr doc, s)" by (rule joinDeal_already_joined)
next
  assume "joinDeal dealId options s = (Inr doc, s')"
  then have "map_get (documents s') dealId = Some doc" by (rule joinDeal_joins)
  then show "joinDeal dealId options' s' = (Inr doc, s')" by (rule joinDeal_already_joined)
qed

text \<open>The theorem for a fresh manager that joins deal 42 with initial data and then joins
  it again with other options.\<close>

theorem joinDeal_idempotent_witness:
  "joinDeal ''42'' \<lparr>initialData = Some [(''title'', JStr ''Acme'')], initialNotes = None\<rparr>
     (new_manager anonymous) =
   (Inr \<lparr>guid = 0, dealMap = [(''title'', JStr ''Acme'')], notesText = [], activityArray = [],
          metadataMap = [(''createdAt'', JNum 0), (''createdBy'', JStr ''user_k3j9x0q1z'')]\<rparr>,
    snd (joinDeal ''42'' \<lparr>initialData = Some [(''title'', JStr ''Acme'')], initialNotes = None\<rparr>
          (new_manager anonymous))) \<and>
   joinDeal ''42'' \<lparr>initialData = None, initialNotes = Some ''again''\<rparr>
     (snd (joinDeal ''42'' \<lparr>initialData = Some [(''title'', JStr ''Acme'')], initialNotes = None\<rparr>
            (new_manager anonymous))) =
   (Inr \<lparr>guid = 0, dealMap = [(''title'', JStr ''Acme'')], notesText = [], activityArray = [],
          metadataMap = [(''createdAt'', JNum 0), (''createdBy'', JStr ''user_k3j9x0q1z'')]\<rparr>,
    snd (joinDeal ''42'' \<lparr>initialData = Some [(''title'', JStr ''Acme'')], initialNotes = None\<rparr>
          (new_manager anonymous)))"
proof -
  have first:
    "joinDeal ''42'' \<lparr>initialData = Some [(''title'', JStr ''Acme'')], initialNotes = None\<rparr>
       (new_manager anonymous) =
     (Inr \<lparr>guid = 0, dealMap = [(''title'', JStr ''Acme'')], notesText = [],
            activityArray = [],
            metadataMap = [(''createdAt'', JNum 0), (''createdBy'', JStr ''user_k3j9x0q1z'')]\<rparr>,
      snd (joinDeal ''42''
             \<lparr>initialData = Some [(''title'', JStr ''Acme'')], initialNotes = None\<rparr>
             (new_manager anonymous)))"
    by (simp add: joinDeal_def new_manager_def default_config_def anonymous_def new_doc_def
        map_get_def Let_def)
  show ?thesis
    using first joinDeal_idempotent
      [of "new_manager anonymous" "''42''" _
          "\<lparr>initialData = Some [(''title'', JStr ''Acme'')], initialNotes = None\<rparr>"
          _ "\<lparr>initialData = None, initialNotes = Some ''again''\<rparr>"]
    by simp
qed

section \<open>Properties of document-name validation\<close>

text \<open>The matcher decides membership in the language of the expression.\<close>

lemma lang_SeqI: "u \<in> lang r1 \<Longrightarrow> v \<in> lang r2 \<Longrightarrow> u @ v \<in> lang (Seq r1 r2)"
  by fastforce

lemma lang_SeqD:
  "w \<in> lang (Seq r1 r2) \<Longrightarrow> \<exists>u v. w = u @ v \<and> u \<in> lang r1 \<and> v \<in> lang r2"
  by auto

lemma lang_OneOfD: "w \<in> lang (OneOf cs) \<Longrightarrow> \<exists>c. w = [c] \<and> c \<in> set cs"
  by auto

lemma lang_OneOfI: "c \<in> set cs \<Longrightarrow> [c] \<in> lang (OneOf cs)"
  by auto

lemma nullable_lang: "nullable r \<longleftrightarrow> [] \<in> lang r"
  by (induction r) (auto intro: star.star_empty)

lemma star_cons:
  "c # w \<in> star L \<Longrightarrow> \<exists>u v. w = u @ v \<and> c # u \<in> L \<and> v \<in> star L"
proof (induction "c # w" arbitrary: w rule: star.induct)
  case (star_step u v)
  show ?case
  proof (cases u)
    case Nil
    then show ?thesis using star_step by auto
  next
    case (Cons a u')
    then show ?thesis using star_step by auto
  qed
qed

lemma deriv_lang: "w \<in> lang (deriv c r) \<longleftrightarrow> c # w \<in> lang r"
proof (induction r arbitrary: w)
  case (Seq r1 r2)
  show ?case
  proof
    assume "w \<in> lang (deriv c (Seq r1 r2))"
    then consider (left) u v where "w = u @ v" "u \<in> lang (deriv c r1)" "v \<in> lang r2"
      | (right) "nullable r1" "w \<in> lang (deriv c r2)"
      by (auto split: if_splits)
    then show "c # w \<in> lang (Seq r1 r2)"
    proof cases
      case left
      then have "c # u \<in> lang r1" using Seq.IH(1) by simp
      then have "(c # u) @ v \<in> lang (Seq r1 r2)" using left(3) by (rule lang_SeqI)
      then show ?thesis using left(1) by simp
    next
      case right
      then have "[] \<in> lang r1" and "c # w \<in> lang r2"
        using Seq.IH(2) by (simp_all add: nullable_lang)
      then have "[] @ (c # w) \<in> lang (Seq r1 r2)" by (rule lang_SeqI)
      then show ?thesis by simp
    qed
  next
    assume "c # w \<in> lang (Seq r1 r2)"
    then obtain u v where uv: "c # w = u @ v" "u \<in> lang r1" "v \<in> lang r2" by auto
    show "w \<in> lang (deriv c (Seq r1 r2))"
    proof (cases u)
      case Nil
      then have "nullable r1" and "w \<in> lang (deriv c r2)"
        using uv Seq.IH(2) by (simp_all add: nullable_lang)
      then show ?thesis by simp
    next
      case (Cons a u')
      then have "a = c" and w: "w = u' @ v" using uv(1) by simp_all
      then have "u' \<in> lang (deriv c r1)" using uv(2) Cons Seq.IH(1) by simp
      then have "u' @ v \<in> lang (Seq (deriv c r1) r2)" using uv(3) by (rule lang_SeqI)
      then show ?thesis using w by auto
    qed
  qed
next
  case (Star r)
  show ?case
  proof
    assume "w \<in> lang (deriv c (Star r))"
    then obtain u v where uv: "w = u @ v" "u \<in> lang (deriv c r)" "v \<in> star (lang r)" by auto
    then have "c # u \<in> lang r" using Star.IH by simp
    then have "(c # u) @ v \<in> star (lang r)" using uv(3) by (rule star.star_step)
    then show "c # w \<in> lang (Star r)" using uv(1) by simp
  next
    assume "c # w \<in> lang (Star r)"
    then obtain u v where "w = u @ v" "c # u \<in> lang r" "v \<in> star (lang r)"
      using star_cons [of c w "lang r"] by auto
    then show "w \<in> lang (deriv c (Star r))" using Star.IH by auto
  qed
qed auto

lemma regex_test_lang: "regex_test r s \<longleftrightarrow> s \<in> lang r"
  by (induction s arbitrary: r) (simp_all add: nullable_lang deriv_lang)

lemma star_OneOf: "w \<in> star (lang (OneOf cs)) \<longleftrightarrow> set w \<subseteq> set cs"
proof
  assume "w \<in> star (lang (OneOf cs))"
  then show "set w \<subseteq> set cs" by (induction rule: star.induct) auto
next
  assume "set w \<subseteq> set cs"
  then show "w \<in> star (lang (OneOf cs))"
  proof (induction w)
    case Nil
    show ?case by (rule star.star_empty)
  next
    case (Cons a w)
    then have "[a] \<in> lang (OneOf cs)" and "w \<in> star (lang (OneOf cs))" by auto
    then have "[a] @ w \<in> star (lang (OneOf cs))" by (rule star.star_step)
    then show ?case by simp
  qed
qed

lemma pattern_eq:
  "pattern = Seq (OneOf name_start) (Seq (Star (OneOf name_char))
               (Seq (OneOf '':'') (Plus (OneOf id_char))))"
  by (simp add: pattern_def)

lemma plus_OneOf: "w \<in> lang (Plus (OneOf cs)) \<longleftrightarrow> w \<noteq> [] \<and> set w \<subseteq> set cs"
proof
  assume "w \<in> lang (Plus (OneOf cs))"
  then obtain u v where "w = u @ v" "u \<in> lang (OneOf cs)" "v \<in> star (lang (OneOf cs))"
    unfolding Plus_def by auto
  then show "w \<noteq> [] \<and> set w \<subseteq> set cs" using star_OneOf [of v cs] by auto
next
  assume a: "w \<noteq> [] \<and> set w \<subseteq> set cs"
  then obtain c v where w: "w = c # v" by (cases w) auto
  then have "[c] \<in> lang (OneOf cs)" and "v \<in> lang (Star (OneOf cs))"
    using a star_OneOf [of v cs] by auto
  then have "[c] @ v \<in> lang (Seq (OneOf cs) (Star (OneOf cs)))" by (rule lang_SeqI)
  then show "w \<in> lang (Plus (OneOf cs))" using w by (simp add: Plus_def)
qed

lemma pattern_lang:
  "s \<in> lang pattern \<longleftrightarrow>
   (\<exists>a bs cs. s = a # bs @ CHR '':'' # cs \<and> a \<in> set name_start \<and> set bs \<subseteq> set name_char \<and>
               cs \<noteq> [] \<and> set cs \<subseteq> set id_char)"
proof
  assume "s \<in> lang pattern"
  then have "s \<in> lang (Seq (OneOf name_start) (Seq (Star (OneOf name_char))
               (Seq (OneOf '':'') (Plus (OneOf id_char)))))"
    by (simp only: pattern_eq)
  then obtain u1 r1 where s1: "s = u1 @ r1" "u1 \<in> lang (OneOf name_start)"
      "r1 \<in> lang (Seq (Star (OneOf name_char)) (Seq (OneOf '':'') (Plus (OneOf id_char))))"
    using lang_SeqD by blast
  obtain u2 r2 where s2: "r1 = u2 @ r2" "u2 \<in> lang (Star (OneOf name_char))"
      "r2 \<in> lang (Seq (OneOf '':'') (Plus (OneOf id_char)))"
    using lang_SeqD [OF s1(3)] by blast
  obtain u3 r3 where s3: "r2 = u3 @ r3" "u3 \<in> lang (OneOf '':'')"
      "r3 \<in> lang (Plus (OneOf id_char))"
    using lang_SeqD [OF s2(3)] by blast
  obtain a where a: "u1 = [a]" "a \<in> set name_start" using lang_OneOfD [OF s1(2)] by blast
  have u2: "set u2 \<subseteq> set name_char" using s2(2) star_OneOf [of u2 name_char] by simp
  have u3: "u3 = '':''" using lang_OneOfD [OF s3(2)] by simp
  have r3: "r3 \<noteq> [] \<and> set r3 \<subseteq> set id_char" using s3(3) plus_OneOf by blast
  have "s = a # u2 @ CHR '':'' # r3" using s1(1) s2(1) s3(1) a(1) u3 by simp
  then show "\<exists>a bs cs. s = a # bs @ CHR '':'' # cs \<and> a \<in> set name_start \<and>
               set bs \<subseteq> set name_char \<and> cs \<noteq> [] \<and> set cs \<subseteq> set id_char"
    using a(2) u2 r3 by blast
next
  assume "\<exists>a bs cs. s = a # bs @ CHR '':'' # cs \<and> a \<in> set name_start \<and>
               set bs \<subseteq> set name_char \<and> cs \<noteq> [] \<and> set cs \<subseteq> set id_char"
  then obtain a bs cs where s: "s = a # bs @ CHR '':'' # cs" and a: "a \<in> set name_start"
    and bs: "set bs \<subseteq> set name_char" and cs: "cs \<noteq> [] \<and> set cs \<subseteq> set id_char"
    by blast
  have 1: "[a] \<in> lang (OneOf name_start)" using a by (rule lang_OneOfI)
  have 2: "bs \<in> lang (Star (OneOf name_char))" using bs star_OneOf [of bs name_char] by simp
  have 3: "'':'' \<in> lang (OneOf '':'')" by (rule lang_OneOfI) simp
  have 4: "cs \<in> lang (Plus (OneOf id_char))" using cs plus_OneOf by blast
  have 5: "'':'' @ cs \<in> lang (Seq (OneOf '':'') (Plus (OneOf id_char)))"
    using 3 4 by (rule lang_SeqI)
  have 6: "bs @ ('':'' @ cs) \<in>
      lang (Seq (Star (OneOf name_char)) (Seq (OneOf '':'') (Plus (OneOf id_char))))"
    using 2 5 by (rule lang_SeqI)
  have 7: "[a] @ (bs @ ('':'' @ cs)) \<in>
      lang (Seq (OneOf name_start) (Seq (Star (OneOf name_char))
             (Seq (OneOf '':'') (Plus (OneOf id_char)))))"
    using 1 6 by (rule lang_SeqI)
  have e: "s = [a] @ (bs @ ('':'' @ cs))" using s by simp
  show "s \<in> lang pattern" unfolding pattern_eq e by (rule 7)
qed

lemma no_colon:
  "CHR '':'' \<notin> set name_start" "CHR '':'' \<notin> set name_char" "CHR '':'' \<notin> set id_char"
  by (simp_all add: name_start_def name_char_def id_char_def lower_case_def upper_case_def
      digits_def)

lemma split_no_sep: "sep \<notin> set cs \<Longrightarrow> split sep cs = (cs, [])"
  by (induction cs) auto

lemma split_at_sep:
  "sep \<notin> set t \<Longrightarrow> split sep (t @ sep # rest) = (t, fst (split sep rest) # snd (split sep rest))"
  by (induction t) auto

lemma colons_of_match:
  "s \<in> lang pattern \<Longrightarrow> length (filter (\<lambda>ch. ch = CHR '':'') s) = 1"
proof -
  assume "s \<in> lang pattern"
  then obtain a bs cs where s: "s = a # bs @ CHR '':'' # cs" and a: "a \<in> set name_start"
    and bs: "set bs \<subseteq> set name_char" and cs: "set cs \<subseteq> set id_char"
    using pattern_lang by blast
  have "a \<noteq> CHR '':''" using a no_colon(1) by auto
  moreover have "filter (\<lambda>ch. ch = CHR '':'') bs = []"
    using bs no_colon(2) by (auto simp: filter_empty_conv)
  moreover have "filter (\<lambda>ch. ch = CHR '':'') cs = []"
    using cs no_colon(3) by (auto simp: filter_empty_conv)
  ultimately show ?thesis using s by simp
qed

lemma client_names_rejected:
  "validateDocumentName (docName c dealId) =
     Inl (Error (''Invalid document name format: '' @ docName c dealId @
                 ''. Expected format: entity_type:entity_id''))"
proof -
  have "length (filter (\<lambda>ch. ch = CHR '':'') (docName c dealId)) \<ge> 2"
    by (simp add: docName_def)
  then have "docName c dealId \<notin> lang pattern" using colons_of_match by fastforce
  then have "\<not> regex_test pattern (docName c dealId)" by (simp add: regex_test_lang)
  then show ?thesis by (simp add: validateDocumentName_def)
qed

lemma allowed_fit: "list_all fits allowedEntityTypes"
  by code_simp

lemma allowed_shape:
  assumes "ty \<in> set allowedEntityTypes"
  shows "\<exists>a bs. ty = a # bs \<and> a \<in> set name_start \<and> set bs \<subseteq> set name_char"
proof -
  have "fits ty" using assms allowed_fit by (simp add: list_all_iff)
  then show ?thesis by (cases ty) (auto simp: fits_def list_all_iff)
qed

lemma validate_accepts:
  assumes "regex_test pattern name" and "split CHR '':'' name = (ty, pieces)"
    and "ty \<in> set allowedEntityTypes"
  shows "validateDocumentName name =
         Inr \<lparr>entityType = ty,
              entityId = (case pieces of [] \<Rightarrow> None | ident # _ \<Rightarrow> Some ident),
              documentName = name\<rparr>"
  unfolding validateDocumentName_def using assms by simp

lemma validate_accepted:
  assumes "validateDocumentName name = Inr v"
  shows "regex_test pattern name \<and> fst (split CHR '':'' name) \<in> set allowedEntityTypes \<and>
         v = \<lparr>entityType = fst (split CHR '':'' name),
              entityId = (case snd (split CHR '':'' name) of [] \<Rightarrow> None
                          | ident # _ \<Rightarrow> Some ident),
              documentName = name\<rparr>"
proof (cases "regex_test pattern name")
  case False
  then have "validateDocumentName name =
     Inl (Error (''Invalid document name format: '' @ name @
                 ''. Expected format: entity_type:entity_id''))"
    unfolding validateDocumentName_def by simp
  then show ?thesis using assms by simp
next
  case True
  obtain ty pieces where sp: "split CHR '':'' name = (ty, pieces)"
    by (cases "split CHR '':'' name")
  show ?thesis
  proof (cases "ty \<in> set allowedEntityTypes")
    case False
    then have "validateDocumentName name =
       Inl (Error (''Invalid entity type: '' @ ty @ ''. Allowed types: '' @
                   join '', '' allowedEntityTypes))"
      unfolding validateDocumentName_def using True sp by simp
    then show ?thesis using assms by simp
  next
    case allowed: True
    show ?thesis
      using validate_accepts [OF True sp allowed] assms True sp allowed by simp
  qed
qed

lemma accepted_forward:
  assumes ok: "validateDocumentName name = Inr v"
  shows "\<exists>ty ident. name = ty @ '':'' @ ident \<and> ty \<in> set allowedEntityTypes \<and>
      ident \<noteq> [] \<and> set ident \<subseteq> set id_char \<and>
      v = \<lparr>entityType = ty, entityId = Some ident, documentName = name\<rparr>"
proof -
  have m: "regex_test pattern name"
    and al: "fst (split CHR '':'' name) \<in> set allowedEntityTypes"
    and v: "v = \<lparr>entityType = fst (split CHR '':'' name),
              entityId = (case snd (split CHR '':'' name) of [] \<Rightarrow> None
                          | ident # _ \<Rightarrow> Some ident),
              documentName = name\<rparr>"
    using validate_accepted [OF ok] by blast+
  have "name \<in> lang pattern" using m by (simp only: regex_test_lang)
  then obtain a bs cs where n: "name = a # bs @ CHR '':'' # cs" and a: "a \<in> set name_start"
    and bs: "set bs \<subseteq> set name_char" and cs: "cs \<noteq> [] \<and> set cs \<subseteq> set id_char"
    using pattern_lang by blast
  have c1: "CHR '':'' \<notin> set (a # bs)" using a bs no_colon(1,2) by auto
  have c2: "CHR '':'' \<notin> set cs" using cs no_colon(3) by auto
  have s1: "split CHR '':'' ((a # bs) @ CHR '':'' # cs) =
            (a # bs, fst (split CHR '':'' cs) # snd (split CHR '':'' cs))"
    using c1 by (rule split_at_sep)
  have s2: "split CHR '':'' cs = (cs, [])" using c2 by (rule split_no_sep)
  have sp: "split CHR '':'' name = (a # bs, [cs])"
    unfolding n using s1 s2 by simp
  have al': "a # bs \<in> set allowedEntityTypes" using al unfolding sp by simp
  have v': "v = \<lparr>entityType = a # bs, entityId = Some cs, documentName = name\<rparr>"
    using v unfolding sp by simp
  have n': "name = (a # bs) @ '':'' @ cs" unfolding n by simp
  have "name = (a # bs) @ '':'' @ cs \<and> a # bs \<in> set allowedEntityTypes \<and>
      cs \<noteq> [] \<and> set cs \<subseteq> set id_char \<and>
      v = \<lparr>entityType = a # bs, entityId = Some cs, documentName = name\<rparr>"
    using n' al' cs v' by blast
  then show ?thesis by blast
qed

lemma accepted_backward:
  assumes ty: "ty \<in> set allowedEntityTypes" and ident: "ident \<noteq> []" "set ident \<subseteq> set id_char"
  shows "validateDocumentName (ty @ '':'' @ ident) =
         Inr \<lparr>entityType = ty, entityId = Some ident, documentName = ty @ '':'' @ ident\<rparr>"
proof -
  obtain a bs where t: "ty = a # bs" "a \<in> set name_start" "set bs \<subseteq> set name_char"
    using allowed_shape [OF ty] by blast
  have e: "ty @ '':'' @ ident = a # bs @ CHR '':'' # ident" unfolding t(1) by simp
  have "a # bs @ CHR '':'' # ident \<in> lang pattern"
    using t(2,3) ident pattern_lang by blast
  then have m: "regex_test pattern (ty @ '':'' @ ident)"
    unfolding e by (simp only: regex_test_lang)
  have c1: "CHR '':'' \<notin> set ty" using t no_colon(1,2) by auto
  have c2: "CHR '':'' \<notin> set ident" using ident(2) no_colon(3) by auto
  have s1: "split CHR '':'' (ty @ CHR '':'' # ident) =
            (ty, fst (split CHR '':'' ident) # snd (split CHR '':'' ident))"
    using c1 by (rule split_at_sep)
  have s2: "split CHR '':'' ident = (ident, [])" using c2 by (rule split_no_sep)
  have sp: "split CHR '':'' (ty @ '':'' @ ident) = (ty, [ident])"
    using s1 s2 by simp
  show ?thesis using validate_accepts [OF m sp ty] by simp
qed

lemma accepted_names:
  "validateDocumentName name = Inr v \<longleftrightarrow>
   (\<exists>ty ident. name = ty @ '':'' @ ident \<and> ty \<in> set allowedEntityTypes \<and>
      ident \<noteq> [] \<and> set ident \<subseteq> set id_char \<and>
      v = \<lparr>entityType = ty, entityId = Some ident, documentName = name\<rparr>)"
proof
  assume "validateDocumentName name = Inr v"
  then show "\<exists>ty ident. name = ty @ '':'' @ ident \<and> ty \<in> set allowedEntityTypes \<and>
      ident \<noteq> [] \<and> set ident \<subseteq> set id_char \<and>
      v = \<lparr>entityType = ty, entityId = Some ident, documentName = name\<rparr>"
    by (rule accepted_forward)
next
  assume "\<exists>ty ident. name = ty @ '':'' @ ident \<and> ty \<in> set allowedEntityTypes \<and>
      ident \<noteq> [] \<and> set ident \<subseteq> set id_char \<and>
      v = \<lparr>entityType = ty, entityId = Some ident, documentName = name\<rparr>"
  then obtain ty ident where n: "name = ty @ '':'' @ ident" and ty: "ty \<in> set allowedEntityTypes"
    and ident: "ident \<noteq> []" "set ident \<subseteq> set id_char"
    and v: "v = \<lparr>entityType = ty, entityId = Some ident, documentName = name\<rparr>"
    by blast
  show "validateDocumentName name = Inr v"
    unfolding v n using accepted_backward [OF ty ident] by simp
qed

lemma join_allowed:
  "join '', '' allowedEntityTypes = ''deal, contact, company, note, task, email''"
  by (simp add: allowedEntityTypes_def)

lemma validate_rejected:
  assumes "validateDocumentName name = Inl e"
  shows "e = Error (''Invalid document name format: '' @ name @
                    ''. Expected format: entity_type:entity_id'') \<or>
         e = Error (''Invalid entity type: '' @ fst (split CHR '':'' name) @
                    ''. Allowed types: deal, contact, company, note, task, email'')"
proof (cases "regex_test pattern name")
  case False
  then have "validateDocumentName name =
     Inl (Error (''Invalid document name format: '' @ name @
                 ''. Expected format: entity_type:entity_id''))"
    unfolding validateDocumentName_def by simp
  then show ?thesis using assms by simp
next
  case True
  obtain ty pieces where sp: "split CHR '':'' name = (ty, pieces)"
    by (cases "split CHR '':'' name")
  show ?thesis
  proof (cases "ty \<in> set allowedEntityTypes")
    case False
    then have "validateDocumentName name =
       Inl (Error (''Invalid entity type: '' @ ty @ ''. Allowed types: '' @
                   join '', '' allowedEntityTypes))"
      unfolding validateDocumentName_def using True sp by simp
    then show ?thesis using assms sp by (simp add: join_allowed)
  next
    case allowed: True
    show ?thesis using validate_accepts [OF True sp allowed] assms by simp
  qed
qed

text \<open>
  C7, as the code has it. Validation accepts exactly the names \<open>entityType:entityId\<close>
  whose entity type is on the allow-list and whose identifier is a non-empty string of
  letters, digits, underscores and hyphens, and returns the two parts. Any other name
  is rejected with an error that says what is wrong: the format, with the name and the
  expected format, or the entity type, with the type and the allowed types.
\<close>

theorem validation_accepts_two_part_names:
  "(validateDocumentName name = Inr v \<longleftrightarrow>
     (\<exists>ty ident. name = ty @ '':'' @ ident \<and> ty \<in> set allowedEntityTypes \<and>
        ident \<noteq> [] \<and> set ident \<subseteq> set id_char \<and>
        v = \<lparr>entityType = ty, entityId = Some ident, documentName = name\<rparr>)) \<and>
   (validateDocumentName name = Inl e \<longrightarrow>
      e = Error (''Invalid document name format: '' @ name @
                 ''. Expected format: entity_type:entity_id'') \<or>
      e = Error (''Invalid entity type: '' @ fst (split CHR '':'' name) @
                 ''. Allowed types: deal, contact, company, note, task, email''))"
  using accepted_names validate_rejected by blast

text \<open>The theorem at the name of deal 123, and at a name whose type is not allowed.\<close>

theorem validation_accepts_two_part_names_witness:
  "''deal'' \<in> set allowedEntityTypes \<and> ''123'' \<noteq> [] \<and> set ''123'' \<subseteq> set id_char \<and>
   validateDocumentName ''deal:123'' =
     Inr \<lparr>entityType = ''deal'', entityId = Some ''123'', documentName = ''deal:123''\<rparr> \<and>
   validateDocumentName ''lead:123'' =
     Inl (Error (''Invalid entity type: lead. '' @
                 ''Allowed types: deal, contact, company, note, task, email''))"
proof -
  have a: "''deal'' \<in> set allowedEntityTypes" by (simp add: allowedEntityTypes_def)
  have b: "set ''123'' \<subseteq> set id_char" by (simp add: id_char_def digits_def)
  have c: "validateDocumentName ''lead:123'' =
     Inl (Error (''Invalid entity type: lead. '' @
                 ''Allowed types: deal, contact, company, note, task, email''))"
    by (simp add: validateDocumentName_def pattern_def name_start_def name_char_def
        id_char_def Plus_def lower_case_def upper_case_def digits_def allowedEntityTypes_def)
  have "''deal:123'' = ''deal'' @ '':'' @ ''123''" by simp
  then have "validateDocumentName ''deal:123'' =
     Inr \<lparr>entityType = ''deal'', entityId = Some ''123'', documentName = ''deal:123''\<rparr>"
    using a b validation_accepts_two_part_names
      [of "''deal:123''"
          "\<lparr>entityType = ''deal'', entityId = Some ''123'', documentName = ''deal:123''\<rparr>"]
    by blast
  then show ?thesis using a b c by simp
qed

text \<open>
  C7 as stated fails: \<open>joinDeal\<close> names the session of deal 123 under the default
  namespace \<open>crm:deal:123\<close>, a name of the form \<open>namespace:entityType:entityId\<close>
  whose entity type is allowed, and validation throws the format error for it. The
  same deal under the two-part name is accepted.
\<close>

theorem three_part_name_rejected:
  "docName (cfg (new_manager anonymous)) ''123'' = ''crm:deal:123'' \<and>
   validateDocumentName (docName (cfg (new_manager anonymous)) ''123'') =
     Inl (Error (''Invalid document name format: crm:deal:123. '' @
                 ''Expected format: entity_type:entity_id'')) \<and>
   validateDocumentName ''deal:123'' =
     Inr \<lparr>entityType = ''deal'', entityId = Some ''123'', documentName = ''deal:123''\<rparr>"
  by (simp add: docName_def new_manager_def default_config_def validateDocumentName_def
      pattern_def name_start_def name_char_def id_char_def Plus_def lower_case_def
      upper_case_def digits_def allowedEntityTypes_def)

section \<open>Properties of requests that fail\<close>

lemma cache_lookup_not_get:
  "method \<noteq> ''GET'' \<Longrightarrow> cache_lookup c method key useCache s = (None, s)"
  by (simp add: cache_lookup_def)

lemma try_fetch_rejected:
  "fetch w (fetchCalls s) = FetchRejects err \<Longrightarrow>
   try_fetch c w method key s = (Inl err, s\<lparr>fetchCalls := fetchCalls s + 1\<rparr>)"
  by (simp add: try_fetch_def Let_def)

text \<open>When every \<open>fetch\<close> rejects with the same error, \<open>makeRequest\<close> ends, after
  its retries, with the failure result that carries the message of that error.\<close>

lemma makeRequest_all_rejected:
  assumes "\<forall>n. fetch w n = FetchRejects err" and "verb \<noteq> ''GET''"
  shows "fst (makeRequest c w verb path payload retryCount useCache s) =
         \<lparr>result_ok = False, result_data = [], result_error = err_message err,
          result_status = err_status err\<rparr>"
  using assms
proof (induction c w verb path payload retryCount useCache s rule: makeRequest.induct)
  case (1 c w verb path payload retryCount useCache s)
  let ?key = "(verb, path, (case payload of Some d \<Rightarrow> d | None \<Rightarrow> []))"
  let ?s1 = "s\<lparr>fetchCalls := fetchCalls s + 1\<rparr>"
  let ?s2 = "catch_request w verb path payload err ?s1"
  have cl: "cache_lookup c verb ?key useCache s = (None, s)"
    using "1.prems" by (simp add: cache_lookup_not_get)
  have tf: "try_fetch c w verb ?key s = (Inl err, ?s1)"
    using "1.prems" by (simp add: try_fetch_rejected)
  show ?case
  proof (cases "retryCount < attempts (retryConfig c) \<and> shouldRetry err")
    case True
    obtain d s3 where crd: "calculateRetryDelay c w retryCount ?s2 = (d, s3)"
      by (cases "calculateRetryDelay c w retryCount ?s2")
    have "fst (makeRequest c w verb path payload (retryCount + 1) useCache (delay d s3)) =
          \<lparr>result_ok = False, result_data = [], result_error = err_message err,
           result_status = err_status err\<rparr>"
      using True crd cl tf "1.prems"
      by (intro "1.IH" [OF refl cl [symmetric] refl tf [symmetric] refl refl _ crd [symmetric]]) simp_all
    then show ?thesis
      using True crd cl tf by (subst makeRequest.simps) (simp add: Let_def)
  next
    case False
    then show ?thesis
      using cl tf by (subst makeRequest.simps) (auto simp add: Let_def)
  qed
qed

lemma catch_request_queue:
  "\<not> isNetworkError err \<Longrightarrow>
   offlineQueue (catch_request w method endpoint payload err s) = offlineQueue s"
  by (simp add: catch_request_def logError_def)

lemma calculateRetryDelay_queue:
  "offlineQueue (snd (calculateRetryDelay c w retryCount s)) = offlineQueue s"
  by (simp add: calculateRetryDelay_def Let_def)

lemma makeRequest_keeps_queue:
  assumes "\<forall>n. fetch w n = FetchRejects err" and "verb \<noteq> ''GET''"
    and "\<not> isNetworkError err"
  shows "offlineQueue (snd (makeRequest c w verb path payload retryCount useCache s)) =
         offlineQueue s"
  using assms
proof (induction c w verb path payload retryCount useCache s rule: makeRequest.induct)
  case (1 c w verb path payload retryCount useCache s)
  let ?key = "(verb, path, (case payload of Some d \<Rightarrow> d | None \<Rightarrow> []))"
  let ?s1 = "s\<lparr>fetchCalls := fetchCalls s + 1\<rparr>"
  let ?s2 = "catch_request w verb path payload err ?s1"
  have cl: "cache_lookup c verb ?key useCache s = (None, s)"
    using "1.prems" by (simp add: cache_lookup_not_get)
  have tf: "try_fetch c w verb ?key s = (Inl err, ?s1)"
    using "1.prems" by (simp add: try_fetch_rejected)
  have q2: "offlineQueue ?s2 = offlineQueue s"
    using "1.prems" by (simp add: catch_request_queue)
  show ?case
  proof (cases "retryCount < attempts (retryConfig c) \<and> shouldRetry err")
    case True
    obtain d s3 where crd: "calculateRetryDelay c w retryCount ?s2 = (d, s3)"
      by (cases "calculateRetryDelay c w retryCount ?s2")
    have q3: "offlineQueue (delay d s3) = offlineQueue s"
      using calculateRetryDelay_queue [of c w retryCount ?s2] crd q2 by (simp add: delay_def)
    have "offlineQueue (snd (makeRequest c w verb path payload (retryCount + 1) useCache
            (delay d s3))) = offlineQueue (delay d s3)"
      using True crd cl tf "1.prems"
      by (intro "1.IH" [OF refl cl [symmetric] refl tf [symmetric] refl refl _ crd [symmetric]])
         simp_all
    then show ?thesis
      using True crd cl tf q3 by (subst makeRequest.simps) (simp add: Let_def)
  next
    case False
    then show ?thesis
      using cl tf q2 by (subst makeRequest.simps) (auto simp add: Let_def)
  qed
qed

lemma api_emit_queue: "offlineQueue (api_emit name detail s) = offlineQueue s"
  by (simp add: api_emit_def)

lemma createDeal_try_all_rejected:
  assumes "\<forall>n. fetch w n = FetchRejects err" and "validateDealData dealData = None"
  shows "fst (createDeal_try c w dealData options s) =
         Inl (APIError (''Failed to create deal: '' @ err_message err) (err_status err))"
proof -
  define s1 where
    "s1 = (if optimistic options then
             api_emit ''dealCreatedOptimistic''
               [(''deal'', Obj (obj_set (spread dealData) ''id''
                                (JStr (''temp_'' @ string_of_nat (clock s)))))] s
           else s)"
  obtain response s2 where
    mr: "makeRequest c w ''POST'' (buildDataEndpoint_deals c)
           (Some (transformDealToAPI w dealData s)) 0 True s1 = (response, s2)"
    by (cases "makeRequest c w ''POST'' (buildDataEndpoint_deals c)
           (Some (transformDealToAPI w dealData s)) 0 True s1")
  have "fst (makeRequest c w ''POST'' (buildDataEndpoint_deals c)
              (Some (transformDealToAPI w dealData s)) 0 True s1) =
        \<lparr>result_ok = False, result_data = [], result_error = err_message err,
         result_status = err_status err\<rparr>"
    using assms(1) by (intro makeRequest_all_rejected) simp_all
  then have resp: "response = \<lparr>result_ok = False, result_data = [],
      result_error = err_message err, result_status = err_status err\<rparr>"
    using mr by simp
  have v: "(if validate options then validateDealData dealData else None) = None"
    using assms(2) by simp
  show ?thesis
    unfolding createDeal_try_def Let_def s1_def [symmetric] v mr
    by (simp add: resp)
qed

lemma createDeal_try_keeps_queue:
  assumes "\<forall>n. fetch w n = FetchRejects err" and "\<not> isNetworkError err"
  shows "offlineQueue (snd (createDeal_try c w dealData options s)) = offlineQueue s"
proof (cases "if validate options then validateDealData dealData else None")
  case (Some e)
  show ?thesis unfolding createDeal_try_def Some by simp
next
  case None
  define s1 where
    "s1 = (if optimistic options then
             api_emit ''dealCreatedOptimistic''
               [(''deal'', Obj (obj_set (spread dealData) ''id''
                                (JStr (''temp_'' @ string_of_nat (clock s)))))] s
           else s)"
  obtain response s2 where
    mr: "makeRequest c w ''POST'' (buildDataEndpoint_deals c)
           (Some (transformDealToAPI w dealData s)) 0 True s1 = (response, s2)"
    by (cases "makeRequest c w ''POST'' (buildDataEndpoint_deals c)
           (Some (transformDealToAPI w dealData s)) 0 True s1")
  have "fst (makeRequest c w ''POST'' (buildDataEndpoint_deals c)
              (Some (transformDealToAPI w dealData s)) 0 True s1) =
        \<lparr>result_ok = False, result_data = [], result_error = err_message err,
         result_status = err_status err\<rparr>"
    using assms(1) by (intro makeRequest_all_rejected) simp_all
  then have resp: "response = \<lparr>result_ok = False, result_data = [],
      result_error = err_message err, result_status = err_status err\<rparr>"
    using mr by simp
  have "offlineQueue (snd (makeRequest c w ''POST'' (buildDataEndpoint_deals c)
              (Some (transformDealToAPI w dealData s)) 0 True s1)) = offlineQueue s1"
    using assms by (intro makeRequest_keeps_queue) simp_all
  then have q2: "offlineQueue s2 = offlineQueue s1" using mr by simp
  have q1: "offlineQueue s1 = offlineQueue s" by (simp add: s1_def api_emit_queue)
  show ?thesis
    unfolding createDeal_try_def Let_def s1_def [symmetric] None mr
    by (simp add: resp q2 q1 api_emit_queue)
qed

lemma createDeal_rethrows:
  assumes "fst (createDeal_try c w dealData options s) = Inl e" and "\<not> isNetworkError e"
  shows "fst (createDeal c w dealData options s) = Inl e \<and>
         offlineQueue (snd (createDeal c w dealData options s)) =
           offlineQueue (snd (createDeal_try c w dealData options s))"
proof -
  obtain s1 where t: "createDeal_try c w dealData options s = (Inl e, s1)"
    using assms(1) by (cases "createDeal_try c w dealData options s") auto
  show ?thesis
    unfolding createDeal_def t Let_def using assms(2) by (simp add: logError_def)
qed

text \<open>When the error thrown in the \<open>try\<close> block does look like a network error,
  \<open>createDeal\<close> queues the creation and returns the deal with a placeholder
  identifier and the mark \<open>_offline\<close>.\<close>

lemma createDeal_queues_recognised_failure:
  assumes "fst (createDeal_try c w dealData options s) = Inl e" and "isNetworkError e"
  shows "\<exists>ident.
           fst (createDeal c w dealData options s) =
             Inr (obj_set (obj_set (spread dealData) ''id''
                    (JStr (''offline_'' @
                       string_of_nat (clock (snd (createDeal_try c w dealData options s))))))
                    ''_offline'' (JBool True)) \<and>
           offlineQueue (snd (createDeal c w dealData options s)) =
             offlineQueue (snd (createDeal_try c w dealData options s)) @
               [\<lparr>item_id = ident, item_body = Operation ''create'' ''deals'' dealData,
                 item_timestamp = clock (snd (createDeal_try c w dealData options s)),
                 retries = 0\<rparr>]"
proof -
  obtain s1 where t: "createDeal_try c w dealData options s = (Inl e, s1)"
    using assms(1) by (cases "createDeal_try c w dealData options s") auto
  show ?thesis
    unfolding createDeal_def t Let_def using assms(2)
    by (simp add: logError_def queueOfflineOperation_def generateId_def setOfflineQueue_def)
qed

text \<open>When every \<open>fetch\<close> rejects, whatever \<open>makeRequest\<close> and the \<open>try\<close> block of
  \<open>createDeal\<close> add to the queue are requests, put at its end.\<close>

lemma handleOfflineRequest_queue:
  "\<exists>x. is_request x \<and>
       offlineQueue (handleOfflineRequest w verb path payload s) = offlineQueue s @ [x]"
  by (simp add: handleOfflineRequest_def generateId_def api_emit_def Let_def is_request_def)

lemma catch_request_grows:
  "\<exists>added. list_all is_request added \<and>
     offlineQueue (catch_request w verb path payload err s) = offlineQueue s @ added"
proof (cases "isNetworkError err")
  case True
  obtain x where "is_request x"
    "offlineQueue (handleOfflineRequest w verb path payload
       (logError (''API request failed ('' @ verb @ '' '' @ path @ ''):'') s)) =
     offlineQueue (logError (''API request failed ('' @ verb @ '' '' @ path @ ''):'') s) @ [x]"
    using handleOfflineRequest_queue by blast
  then have "list_all is_request [x] \<and>
     offlineQueue (catch_request w verb path payload err s) = offlineQueue s @ [x]"
    using True by (simp add: catch_request_def Let_def logError_def)
  then show ?thesis by blast
next
  case False
  then have "list_all is_request [] \<and>
     offlineQueue (catch_request w verb path payload err s) = offlineQueue s @ []"
    by (simp add: catch_request_def Let_def logError_def)
  then show ?thesis by blast
qed

lemma makeRequest_grows:
  assumes "\<forall>n. fetch w n = FetchRejects err" and "verb \<noteq> ''GET''"
  shows "\<exists>added. list_all is_request added \<and>
     offlineQueue (snd (makeRequest c w verb path payload retryCount useCache s)) =
       offlineQueue s @ added"
  using assms
proof (induction c w verb path payload retryCount useCache s rule: makeRequest.induct)
  case (1 c w verb path payload retryCount useCache s)
  let ?key = "(verb, path, (case payload of Some d \<Rightarrow> d | None \<Rightarrow> []))"
  let ?s1 = "s\<lparr>fetchCalls := fetchCalls s + 1\<rparr>"
  let ?s2 = "catch_request w verb path payload err ?s1"
  have cl: "cache_lookup c verb ?key useCache s = (None, s)"
    using "1.prems" by (simp add: cache_lookup_not_get)
  have tf: "try_fetch c w verb ?key s = (Inl err, ?s1)"
    using "1.prems" by (simp add: try_fetch_rejected)
  obtain added2 where a2: "list_all is_request added2" "offlineQueue ?s2 = offlineQueue s @ added2"
    using catch_request_grows [of w verb path payload err ?s1] by auto
  show ?case
  proof (cases "retryCount < attempts (retryConfig c) \<and> shouldRetry err")
    case True
    obtain d s3 where crd: "calculateRetryDelay c w retryCount ?s2 = (d, s3)"
      by (cases "calculateRetryDelay c w retryCount ?s2")
    have q3: "offlineQueue (delay d s3) = offlineQueue s @ added2"
      using calculateRetryDelay_queue [of c w retryCount ?s2] crd a2(2) by (simp add: delay_def)
    have "\<exists>added. list_all is_request added \<and>
            offlineQueue (snd (makeRequest c w verb path payload (retryCount + 1) useCache
              (delay d s3))) = offlineQueue (delay d s3) @ added"
      using True crd cl tf "1.prems"
      by (intro "1.IH" [OF refl cl [symmetric] refl tf [symmetric] refl refl _ crd [symmetric]])
         simp_all
    then obtain added3 where a3: "list_all is_request added3"
      "offlineQueue (snd (makeRequest c w verb path payload (retryCount + 1) useCache
              (delay d s3))) = offlineQueue s @ added2 @ added3"
      using q3 by auto
    have "offlineQueue (snd (makeRequest c w verb path payload retryCount useCache s)) =
          offlineQueue s @ added2 @ added3"
      using True crd cl tf a3(2) by (subst makeRequest.simps) (simp add: Let_def)
    moreover have "list_all is_request (added2 @ added3)" using a2(1) a3(1) by simp
    ultimately show ?thesis by blast
  next
    case False
    then have "offlineQueue (snd (makeRequest c w verb path payload retryCount useCache s)) =
          offlineQueue s @ added2"
      using cl tf a2(2) by (subst makeRequest.simps) (auto simp add: Let_def)
    then show ?thesis using a2(1) by blast
  qed
qed

lemma js_includes_append: "js_includes ys sub \<Longrightarrow> js_includes (xs @ ys) sub"
  by (induction xs) simp_all

lemma createDeal_try_grows:
  assumes "\<forall>n. fetch w n = FetchRejects err"
  shows "\<exists>added. list_all is_request added \<and>
           offlineQueue (snd (createDeal_try c w dealData options s)) = offlineQueue s @ added"
proof (cases "if validate options then validateDealData dealData else None")
  case (Some e)
  have "list_all is_request [] \<and>
        offlineQueue (snd (createDeal_try c w dealData options s)) = offlineQueue s @ []"
    unfolding createDeal_try_def Some by simp
  then show ?thesis by blast
next
  case None
  define s1 where
    "s1 = (if optimistic options then
             api_emit ''dealCreatedOptimistic''
               [(''deal'', Obj (obj_set (spread dealData) ''id''
                                (JStr (''temp_'' @ string_of_nat (clock s)))))] s
           else s)"
  obtain response s2 where
    mr: "makeRequest c w ''POST'' (buildDataEndpoint_deals c)
           (Some (transformDealToAPI w dealData s)) 0 True s1 = (response, s2)"
    by (cases "makeRequest c w ''POST'' (buildDataEndpoint_deals c)
           (Some (transformDealToAPI w dealData s)) 0 True s1")
  have "fst (makeRequest c w ''POST'' (buildDataEndpoint_deals c)
              (Some (transformDealToAPI w dealData s)) 0 True s1) =
        \<lparr>result_ok = False, result_data = [], result_error = err_message err,
         result_status = err_status err\<rparr>"
    using assms(1) by (intro makeRequest_all_rejected) simp_all
  then have resp: "response = \<lparr>result_ok = False, result_data = [],
      result_error = err_message err, result_status = err_status err\<rparr>"
    using mr by simp
  have "\<exists>added. list_all is_request added \<and>
          offlineQueue (snd (makeRequest c w ''POST'' (buildDataEndpoint_deals c)
              (Some (transformDealToAPI w dealData s)) 0 True s1)) = offlineQueue s1 @ added"
    using assms by (intro makeRequest_grows) simp_all
  then obtain added where a: "list_all is_request added" "offlineQueue s2 = offlineQueue s1 @ added"
    using mr by auto
  have q1: "offlineQueue s1 = offlineQueue s" by (simp add: s1_def api_emit_queue)
  have "offlineQueue (snd (createDeal_try c w dealData options s)) = offlineQueue s @ added"
    unfolding createDeal_try_def Let_def s1_def [symmetric] None mr
    by (simp add: resp a(2) q1 api_emit_queue)
  then show ?thesis using a(1) by blast
qed

lemma timeout_not_network:
  "\<not> isNetworkError \<lparr>err_name = ''TimeoutError'', err_message = ''signal timed out'', err_status = 0\<rparr>"
  by (simp add: isNetworkError_def startsWith_def)

lemma wrapped_timeout_not_network:
  "\<not> isNetworkError (APIError ''Failed to create deal: signal timed out'' 0)"
  by (simp add: isNetworkError_def APIError_def startsWith_def)

lemma wrapped_load_failed_not_network:
  "\<not> isNetworkError (APIError ''Failed to create deal: Load failed'' 0)"
  by (simp add: isNetworkError_def APIError_def startsWith_def)

lemma load_failed_is_network: "isNetworkError (TypeError ''Load failed'')"
  by (simp add: isNetworkError_def TypeError_def)

lemma validate_acme: "validateDealData [(''title'', JStr ''Acme'')] = None"
  by (simp add: validateDealData_def title_check_def amount_check_def status_check_def
      probability_check_def get_prop_def obj_get_def trim_def whitespace_def)

lemma failing_world_fetch: "\<forall>n. fetch (failing_world err) n = FetchRejects err"
  by (simp add: failing_world_def)

text \<open>
  C4 at two network failures of \<open>createDeal\<close>. A request that runs into the 30 second
  timeout rejects with a \<open>TimeoutError\<close>: \<open>createDeal\<close> throws an \<open>APIError\<close> to its
  caller and the offline queue stays empty. A refused connection that the browser
  reports as \<open>TypeError: Load failed\<close> is a network error for \<open>isNetworkError\<close>, and
  still \<open>createDeal\<close> throws: the error it examines is the \<open>APIError\<close> it wrapped the
  failure in, whose name and message no longer say so.
\<close>

theorem createDeal_throws_on_network_failure:
  "fst (createDeal default_settings (failing_world timeout_error) [(''title'', JStr ''Acme'')]
         \<lparr>optimistic = True, validate = True\<rparr> new_api) =
     Inl (APIError ''Failed to create deal: signal timed out'' 0) \<and>
   offlineQueue (snd (createDeal default_settings (failing_world timeout_error)
         [(''title'', JStr ''Acme'')] \<lparr>optimistic = True, validate = True\<rparr> new_api)) = [] \<and>
   isNetworkError (TypeError ''Load failed'') \<and>
   fst (createDeal default_settings (failing_world (TypeError ''Load failed''))
         [(''title'', JStr ''Acme'')] \<lparr>optimistic = True, validate = True\<rparr> new_api) =
     Inl (APIError ''Failed to create deal: Load failed'' 0)"
proof (intro conjI)
  let ?deal = "[(''title'', JStr ''Acme'')]"
  let ?options = "\<lparr>optimistic = True, validate = True\<rparr>"
  have t1: "fst (createDeal_try default_settings (failing_world timeout_error) ?deal ?options
                  new_api) = Inl (APIError ''Failed to create deal: signal timed out'' 0)"
    using createDeal_try_all_rejected
        [where c = default_settings and options = ?options and s = new_api,
         OF failing_world_fetch validate_acme, of timeout_error]
    by (simp add: timeout_error_def)
  have n1: "\<not> isNetworkError timeout_error"
    using timeout_not_network by (simp add: timeout_error_def)
  have q1: "offlineQueue (snd (createDeal_try default_settings (failing_world timeout_error)
                  ?deal ?options new_api)) = []"
    using createDeal_try_keeps_queue
        [where c = default_settings and dealData = ?deal and options = ?options and s = new_api,
         OF failing_world_fetch n1]
    by (simp add: new_api_def)
  show "fst (createDeal default_settings (failing_world timeout_error) ?deal ?options new_api) =
        Inl (APIError ''Failed to create deal: signal timed out'' 0)"
    using createDeal_rethrows [OF t1 wrapped_timeout_not_network] by simp
  show "offlineQueue (snd (createDeal default_settings (failing_world timeout_error) ?deal
          ?options new_api)) = []"
    using createDeal_rethrows [OF t1 wrapped_timeout_not_network] q1 by simp
  show "isNetworkError (TypeError ''Load failed'')" by (rule load_failed_is_network)
  have t2: "fst (createDeal_try default_settings (failing_world (TypeError ''Load failed''))
                  ?deal ?options new_api) =
            Inl (APIError ''Failed to create deal: Load failed'' 0)"
    using createDeal_try_all_rejected
        [where c = default_settings and options = ?options and s = new_api,
         OF failing_world_fetch validate_acme, of "TypeError ''Load failed''"]
    by (simp add: TypeError_def)
  show "fst (createDeal default_settings (failing_world (TypeError ''Load failed'')) ?deal
          ?options new_api) = Inl (APIError ''Failed to create deal: Load failed'' 0)"
    using createDeal_rethrows [OF t2 wrapped_load_failed_not_network] by simp
qed

section \<open>Passes of a quiet drain\<close>










section \<open>Requests that a server refuses\<close>









lemma method_name_create_deals: "method_name ''create'' ''deals'' = ''createDeal''"
  by (simp add: method_name_def capitalize_def toUpperCase_def lower_case_def upper_case_def)


lemma replay_creation:
  "item_body x = Operation ''create'' ''deals'' payload \<Longrightarrow>
   processOfflineItem (manager c w depth) x s =
     (case createDeal c w payload \<lparr>optimistic = False, validate = True\<rparr> s of
        (Inl error, s1) \<Rightarrow> Some (Some error, s1)
      | (Inr deal, s1) \<Rightarrow> Some (None, s1))"
  by (simp add: processOfflineItem_def method_name_create_deals manager_def)








section \<open>Requests that a server accepts\<close>


















section \<open>Properties of the drain\<close>







section \<open>A drain that replays into a dead network\<close>

text \<open>
  The properties of the drain above are about replays that leave the queue alone.
  \<open>createDeal\<close> does not when the network is still down: a replayed creation whose
  request fails with \<open>Failed to fetch\<close> is queued again, at the end of the array the
  loop is walking, so the loop meets it again. With every \<open>fetch\<close> rejecting with an
  error whose message contains \<open>fetch\<close>, a drain of a queue of put-aside requests and
  valid creations of deals, one creation at least, has not finished after any number
  of steps.
\<close>

lemma replay_request:
  "is_request x \<Longrightarrow> \<exists>e. processOfflineItem this x s = Some (Some e, s)"
  by (simp add: processOfflineItem_def is_request_def split: queued.splits)

lemma replay_creation_unreachable:
  assumes "\<forall>n. fetch w n = FetchRejects err" and "js_includes (err_message err) ''fetch''"
    and "valid_creation x"
  shows "\<exists>added y s1. list_all is_request added \<and> valid_creation y \<and>
           processOfflineItem (manager c w depth) x s = Some (None, s1) \<and>
           offlineQueue s1 = offlineQueue s @ added @ [y]"
proof -
  let ?options = "\<lparr>optimistic = False, validate = True\<rparr>"
  obtain payload where body: "item_body x = Operation ''create'' ''deals'' payload"
    and valid: "validateDealData payload = None"
    using assms(3) by (auto simp: valid_creation_def split: queued.splits)
  have t: "fst (createDeal_try c w payload ?options s) =
           Inl (APIError (''Failed to create deal: '' @ err_message err) (err_status err))"
    using assms(1) valid by (rule createDeal_try_all_rejected)
  have n: "isNetworkError (APIError (''Failed to create deal: '' @ err_message err) (err_status err))"
    using js_includes_append [OF assms(2), of "''Failed to create deal: ''"]
    by (simp add: isNetworkError_def APIError_def)
  obtain added where a: "list_all is_request added"
    "offlineQueue (snd (createDeal_try c w payload ?options s)) = offlineQueue s @ added"
    using createDeal_try_grows [OF assms(1), of c payload ?options s] by auto
  obtain ident deal where
    r: "fst (createDeal c w payload ?options s) = Inr deal"
    and q: "offlineQueue (snd (createDeal c w payload ?options s)) =
        offlineQueue (snd (createDeal_try c w payload ?options s)) @
          [\<lparr>item_id = ident, item_body = Operation ''create'' ''deals'' payload,
            item_timestamp = clock (snd (createDeal_try c w payload ?options s)),
            retries = 0\<rparr>]"
    using createDeal_queues_recognised_failure [OF t n] by blast
  define y where "y = \<lparr>item_id = ident, item_body = Operation ''create'' ''deals'' payload,
            item_timestamp = clock (snd (createDeal_try c w payload ?options s)),
            retries = 0\<rparr>"
  have vy: "valid_creation y" using valid by (simp add: y_def valid_creation_def)
  obtain s1 where cd: "createDeal c w payload ?options s = (Inr deal, s1)"
    using r by (cases "createDeal c w payload ?options s") auto
  have p: "processOfflineItem (manager c w depth) x s = Some (None, s1)"
    using replay_creation [OF body, of c w depth s] by (simp add: cd)
  have "offlineQueue s1 = offlineQueue s @ added @ [y]"
    using q a(2) cd by (simp add: y_def)
  then show ?thesis using a(1) vy p by blast
qed

lemma request_not_creation: "is_request x \<Longrightarrow> \<not> valid_creation x"
  by (simp add: is_request_def valid_creation_def split: queued.splits)

lemma replay_loop_never_finishes:
  assumes "\<forall>n. fetch w n = FetchRejects err" and "js_includes (err_message err) ''fetch''"
  shows "list_all (\<lambda>x. is_request x \<or> valid_creation x) (offlineQueue s) \<Longrightarrow>
         i \<le> j \<Longrightarrow> j < length (offlineQueue s) \<Longrightarrow> valid_creation (offlineQueue s ! j) \<Longrightarrow>
         replay_loop fuel (processOfflineItem (manager c w depth)) limit i processed s = None"
proof (induction fuel arbitrary: i j processed s)
  case 0
  show ?case by simp
next
  case (Suc fuel)
  let ?replay = "processOfflineItem (manager c w depth)"
  let ?good = "\<lambda>x. is_request x \<or> valid_creation x"
  let ?q = "offlineQueue s"
  define item where "item = ?q ! i"
  have i: "i < length ?q" using Suc.prems by simp
  have good: "?good item" using Suc.prems(1) i by (simp add: item_def list_all_length)
  show ?case
  proof (cases "is_request item")
    case True
    obtain e where rp: "?replay item s = Some (Some e, s)"
      using replay_request [OF True] by blast
    define item1 where "item1 = item\<lparr>retries := retries item + 1\<rparr>"
    define s2 where "s2 = s\<lparr>offlineQueue := ?q[i := item1]\<rparr>"
    have ij: "i \<noteq> j" using True Suc.prems(4) request_not_creation by (auto simp: item_def)
    have r1: "is_request item1" using True by (simp add: item1_def is_request_def)
    have g2: "list_all ?good (offlineQueue (logError msg s2))" for msg
      using Suc.prems(1) r1 set_update_subset_insert [of "offlineQueue s" i item1]
      by (auto simp: s2_def logError_def list_all_iff)
    have l2: "j < length (offlineQueue (logError msg s2))" for msg
      using Suc.prems(3) by (simp add: s2_def logError_def)
    have v2: "valid_creation (offlineQueue (logError msg s2) ! j)" for msg
      using Suc.prems(4) ij by (simp add: s2_def logError_def)
    have next_step: "replay_loop fuel ?replay limit (i + 1) p (logError msg s2) = None" for p msg
      using g2 l2 v2 ij Suc.prems(2) by (intro Suc.IH [where j = j]) simp_all
    have "\<exists>p1 msg. visit ?replay limit i processed s = Some (p1, logError msg s2)"
      using rp
      by (cases "limit \<le> Suc (retries item)")
        (simp_all add: visit_def Let_def item_def [symmetric] s2_def item1_def, blast+)
    then obtain p1 msg where
      vis: "visit ?replay limit i processed s = Some (p1, logError msg s2)" by blast
    show ?thesis
      using i vis next_step by simp
  next
    case False
    then have v: "valid_creation item" using good by simp
    obtain added y s1 where a: "list_all is_request added" "valid_creation y"
      and rp: "?replay item s = Some (None, s1)"
      and q1: "offlineQueue s1 = ?q @ added @ [y]"
      using replay_creation_unreachable [OF assms v, of c depth s] by blast
    have g1: "list_all ?good (offlineQueue s1)"
      using Suc.prems(1) a(1,2) by (auto simp: q1 list_all_iff)
    have "replay_loop fuel ?replay limit (i + 1) p s1 = None" for p
    proof (rule Suc.IH [where j = "length ?q + length added"])
      show "list_all ?good (offlineQueue s1)" by (rule g1)
      show "i + 1 \<le> length ?q + length added" using i by simp
      show "length ?q + length added < length (offlineQueue s1)" by (simp add: q1)
      show "valid_creation (offlineQueue s1 ! (length ?q + length added))"
        using a(2) by (simp add: q1 nth_append)
    qed
    then show ?thesis
      using i rp by (simp add: visit_def Let_def item_def [symmetric])
  qed
qed

lemma drain_never_finishes:
  assumes "\<forall>n. fetch w n = FetchRejects err" and "js_includes (err_message err) ''fetch''"
    and "isConnected s"
    and "list_all (\<lambda>x. is_request x \<or> valid_creation x) (offlineQueue s)"
    and "j < length (offlineQueue s)" and "valid_creation (offlineQueue s ! j)"
  shows "processOfflineQueue c (manager c w depth) fuel s = None"
proof -
  have "replay_loop fuel (processOfflineItem (manager c w depth))
          (attempts (retryConfig c)) 0 [] s = None"
    using assms(4) _ assms(5,6) by (rule replay_loop_never_finishes [OF assms(1,2)]) simp
  moreover have "offlineQueue s \<noteq> []" using assms(5) by auto
  ultimately show ?thesis using assms(3) by (simp add: processOfflineQueue_def)
qed

lemma drain_of_one_creation_never_finishes:
  "processOfflineQueue default_settings
     (manager default_settings (failing_world (TypeError ''Failed to fetch'')) depth)
     fuel (new_api\<lparr>isConnected := True, offlineQueue := [pending_create]\<rparr>) = None"
proof (rule drain_never_finishes [where j = 0 and err = "TypeError ''Failed to fetch''"])
  show "\<forall>n. fetch (failing_world (TypeError ''Failed to fetch'')) n =
          FetchRejects (TypeError ''Failed to fetch'')"
    by (rule failing_world_fetch)
  show "js_includes (err_message (TypeError ''Failed to fetch'')) ''fetch''"
    by (simp add: TypeError_def startsWith_def)
  have v: "valid_creation pending_create"
    using validate_acme by (simp add: valid_creation_def pending_create_def)
  show "isConnected (new_api\<lparr>isConnected := True, offlineQueue := [pending_create]\<rparr>)" by simp
  show "list_all (\<lambda>x. is_request x \<or> valid_creation x)
          (offlineQueue (new_api\<lparr>isConnected := True, offlineQueue := [pending_create]\<rparr>))"
    using v by simp
  show "0 < length (offlineQueue (new_api\<lparr>isConnected := True, offlineQueue := [pending_create]\<rparr>))"
    by simp
  show "valid_creation
          (offlineQueue (new_api\<lparr>isConnected := True, offlineQueue := [pending_create]\<rparr>) ! 0)"
    using v by simp
qed

end
